theory Spec2Isabelle
  imports Main "HOL-Library.AList" "HOL-Library.Sublist" "HOL-Library.Word"
begin

section \<open>JavaScript values and containers\<close>

text \<open>
  The OAuth modules of the server (\<^verbatim>\<open>oauth/dcr.ts\<close>, \<^verbatim>\<open>oauth/discovery.ts\<close>,
  \<^verbatim>\<open>oauth/pkce.ts\<close>, \<^verbatim>\<open>oauth/tokenManager.ts\<close>, \<^verbatim>\<open>oauth/authFlow.ts\<close>) are
  embedded function by function.

  \<^item> An optional field \<^verbatim>\<open>f?: string\<close> is a \<open>string option\<close>; a field that the TypeScript
    interface declares as required is a plain value, and a JSON document that lacks it
    carries the empty value there (\<open>''''\<close>, \<open>[]\<close>): the code inspects such fields only
    through JavaScript truthiness, under which \<^verbatim>\<open>undefined\<close> and \<^verbatim>\<open>''\<close> agree.
  \<^item> \<^verbatim>\<open>Date.now()\<close> is the parameter \<open>now\<close> (milliseconds, an \<open>int\<close>) of the operation
    that reads the clock; one operation reads one time.
  \<^item> A \<^verbatim>\<open>Map\<close> is an association list in insertion order: \<^verbatim>\<open>get\<close> is \<open>map_of\<close>,
    \<^verbatim>\<open>set\<close> is \<open>AList.update\<close> (an existing key keeps its place, a new one goes last),
    \<^verbatim>\<open>delete\<close> is \<open>AList.delete\<close>.
  \<^item> Every \<^verbatim>\<open>throw\<close> is a value \<open>Inl e\<close> of the result, and an operation that writes
    module state returns the new state beside its result.
\<close>

definition truthy :: "string option \<Rightarrow> bool" where
  "truthy v = (case v of None \<Rightarrow> False | Some s \<Rightarrow> s \<noteq> [])"

definition truthyNum :: "int option \<Rightarrow> bool" where
  "truthyNum v = (case v of None \<Rightarrow> False | Some n \<Rightarrow> n \<noteq> 0)"

text \<open>\<^verbatim>\<open>s.split(c)\<close> for a one-character separator, and \<^verbatim>\<open>xs.join(sep)\<close>.\<close>

fun js_split :: "char \<Rightarrow> string \<Rightarrow> string list" where
  "js_split c [] = [[]]"
| "js_split c (x # xs) =
     (if x = c then [] # js_split c xs
      else (case js_split c xs of [] \<Rightarrow> [[x]] | p # ps \<Rightarrow> (x # p) # ps))"

fun js_join :: "string \<Rightarrow> string list \<Rightarrow> string" where
  "js_join sep [] = []"
| "js_join sep [x] = x"
| "js_join sep (x # y # ys) = x @ sep @ js_join sep (y # ys)"

text \<open>\<^verbatim>\<open>s.replace(/\/$/, '')\<close> and \<^verbatim>\<open>s.replace(/^\//, '')\<close>.\<close>

definition stripTrailingSlash :: "string \<Rightarrow> string" where
  "stripTrailingSlash s = (if s \<noteq> [] \<and> last s = CHR ''/'' then butlast s else s)"

definition stripLeadingSlash :: "string \<Rightarrow> string" where
  "stripLeadingSlash s = (case s of [] \<Rightarrow> [] | c # cs \<Rightarrow> if c = CHR ''/'' then cs else s)"

text \<open>\<^verbatim>\<open>URLSearchParams\<close>: \<^verbatim>\<open>set\<close> overwrites the first pair of that name and drops the
  others, or appends; \<^verbatim>\<open>delete\<close> drops every pair of that name.\<close>

fun searchParams_set :: "string \<Rightarrow> string \<Rightarrow> (string \<times> string) list \<Rightarrow> (string \<times> string) list" where
  "searchParams_set k v [] = [(k, v)]"
| "searchParams_set k v (p # ps) =
     (if fst p = k then (k, v) # filter (\<lambda>q. fst q \<noteq> k) ps
      else p # searchParams_set k v ps)"

definition searchParams_delete :: "string \<Rightarrow> (string \<times> string) list \<Rightarrow> (string \<times> string) list" where
  "searchParams_delete k ps = filter (\<lambda>q. fst q \<noteq> k) ps"

definition searchParams_get :: "string \<Rightarrow> (string \<times> string) list \<Rightarrow> string option" where
  "searchParams_get k ps = map_of ps k"

section \<open>Types (\<^verbatim>\<open>types.ts\<close>)\<close>

record OAuthConfig =
  enabled :: bool
  issuer :: "string option"
  clientId :: "string option"
  clientSecret :: "string option"
  scopes :: "string list option"
  redirectUri :: string

record ProtectedResourceMetadata =
  resource :: string
  authorization_servers :: "string list"
  scopes_supported :: "string list option"

record AuthServerMetadata =
  issuer :: string
  authorization_endpoint :: string
  token_endpoint :: string
  registration_endpoint :: "string option"
  scopes_supported :: "string list option"
  code_challenge_methods_supported :: "string list option"
  revocation_endpoint :: "string option"

record DCRRequest =
  redirect_uris :: "string list"
  client_name :: string
  grant_types :: "string list"
  response_types :: "string list"
  token_endpoint_auth_method :: string
  scope :: "string option"

record DCRResponse =
  client_id :: string
  client_secret :: "string option"
  client_secret_expires_at :: "int option"

record OAuthTokens =
  accessToken :: string
  refreshToken :: "string option"
  tokenType :: string
  expiresAt :: int
  scope :: "string option"

record OAuthState =
  state :: string
  codeVerifier :: string
  redirectUri :: string
  resourceUri :: string
  issuer :: string
  createdAt :: int
  scopes :: "string list option"

record RegisteredClient =
  clientId :: string
  clientSecret :: "string option"
  issuer :: string
  resourceUri :: string
  registeredAt :: int
  clientSecretExpiresAt :: "int option"

text \<open>The two interfaces private to \<^verbatim>\<open>tokenManager.ts\<close>.\<close>

record EncryptedTokens = OAuthTokens +
  issuer :: string

record TokenResponse =
  access_token :: string
  token_type :: string
  expires_in :: "int option"
  refresh_token :: "string option"
  scope :: "string option"

section \<open>The platform: URLs, HTTP, randomness and the cipher\<close>

text \<open>
  What Node provides is a parameter of the model. A \<open>URL\<close> is the parsed object, and
  \<^verbatim>\<open>new URL(s)\<close> is \<open>parseURL\<close>, \<open>None\<close> when the constructor throws. A \<open>response\<close> is
  a response received in full: its status and the document that \<^verbatim>\<open>response.json()\<close>
  yields, \<open>None\<close> when that promise rejects or yields no object (reading a field of the
  result then throws at once); \<^verbatim>\<open>response.ok\<close> is a status of 200 to 299.
  Each \<^verbatim>\<open>fetch\<close> is \<open>None\<close> when the promise rejects. The text of an \<^verbatim>\<open>Error\<close> is left
  out: each kind of failure has its own constructor.
\<close>

type_synonym key = string

record URL =
  protocol :: string
  host :: string
  port :: string
  origin :: string
  pathname :: string
  searchParams :: "(string \<times> string) list"

record 'a response =
  status :: nat
  json :: "'a option"

definition ok :: "'a response \<Rightarrow> bool" where
  "ok r = (200 \<le> status r \<and> status r \<le> 299)"

record TokenRequest =
  url :: string
  authorization :: "(string \<times> string) option"
  body :: "(string \<times> string) list"

datatype error =
    FetchFailed
  | JsonRejected
  | InvalidURL
  | DecipherFailed
  | InvalidTimeValue
  | VerifierLengthOutOfRange
  | DiscoveryFailedProtectedResource
  | DiscoveryFailedAuthServer
  | NoAuthorizationServer
  | DcrUnsupported
  | DcrFailed
  | InvalidDcrResponse
  | NoClientCredentials
  | TokenExchangeFailed
  | TokenRefreshFailed
  | MissingAccessToken
  | NoRefreshToken
  | InvalidOrExpiredState
  | StateExpired

record env =
  parseURL :: "string \<Rightarrow> URL option"
  fetchProtectedResource :: "string \<Rightarrow> ProtectedResourceMetadata response option"
  fetchAuthServer :: "string \<Rightarrow> AuthServerMetadata response option"
  fetchRegistration :: "string \<Rightarrow> DCRRequest \<Rightarrow> DCRResponse response option"
  fetchToken :: "TokenRequest \<Rightarrow> TokenResponse response option"
  randomByte :: "nat \<Rightarrow> nat \<Rightarrow> 8 word"
  sha256_base64 :: "string \<Rightarrow> string"
  cipher :: "key \<Rightarrow> string \<Rightarrow> string \<times> string \<times> string"
  decipher :: "key \<Rightarrow> string \<Rightarrow> string \<Rightarrow> string \<Rightarrow> string option"
  writeFileOk :: bool

text \<open>
  \<open>cipher k text\<close> is the three hexadecimal fields (IV, authentication tag, ciphertext)
  that AES-256-GCM under a fresh IV gives; \<open>decipher k iv tag ct\<close> is \<open>None\<close> when
  \<^verbatim>\<open>createDecipheriv\<close> or \<^verbatim>\<open>decipher.final\<close> throws.

  \<^verbatim>\<open>dcr.ts\<close> and \<^verbatim>\<open>tokenManager.ts\<close> each define the same \<^verbatim>\<open>encrypt\<close> and \<^verbatim>\<open>decrypt\<close>
  over their own \<^verbatim>\<open>encryptionKey\<close>; the key is the second argument here.
\<close>

definition encrypt :: "env \<Rightarrow> key option \<Rightarrow> string \<Rightarrow> string" where
  "encrypt w encryptionKey text =
     (case encryptionKey of
        None \<Rightarrow> text
      | Some k \<Rightarrow> (case cipher w k text of (iv, authTag, encrypted) \<Rightarrow>
                    iv @ '':'' @ authTag @ '':'' @ encrypted))"

definition decrypt :: "env \<Rightarrow> key option \<Rightarrow> string \<Rightarrow> error + string" where
  "decrypt w encryptionKey encryptedText =
     (case encryptionKey of
        None \<Rightarrow> Inr encryptedText
      | Some k \<Rightarrow>
          (case js_split CHR '':'' encryptedText of
             [ivHex, authTagHex, encrypted] \<Rightarrow>
               (case decipher w k ivHex authTagHex encrypted of
                  None \<Rightarrow> Inl DecipherFailed
                | Some decrypted \<Rightarrow> Inr decrypted)
           | _ \<Rightarrow> Inr encryptedText))"

text \<open>\<^verbatim>\<open>v ? decrypt(v) : undefined\<close> and \<^verbatim>\<open>v ? encrypt(v) : undefined\<close>.\<close>

definition decryptOptional :: "env \<Rightarrow> key option \<Rightarrow> string option \<Rightarrow> error + string option" where
  "decryptOptional w encryptionKey v =
     (if truthy v then
        (case decrypt w encryptionKey (the v) of Inl e \<Rightarrow> Inl e | Inr d \<Rightarrow> Inr (Some d))
      else Inr None)"

definition encryptOptional :: "env \<Rightarrow> key option \<Rightarrow> string option \<Rightarrow> string option" where
  "encryptOptional w encryptionKey v =
     (if truthy v then Some (encrypt w encryptionKey (the v)) else None)"

section \<open>Module state\<close>

record modules =
  registeredClients :: "(string \<times> RegisteredClient) list"
  dcrKey :: "key option"
  tokenStore :: "(string \<times> EncryptedTokens) list"
  tokenKey :: "key option"
  pendingStates :: "(string \<times> OAuthState) list"
  statesFile :: "(string \<times> OAuthState) list option"
  resourceMetadataCache :: "(string \<times> ProtectedResourceMetadata \<times> AuthServerMetadata) list"
  protectedResourceMetadataCache :: "(string \<times> ProtectedResourceMetadata \<times> int) list"
  authServerMetadataCache :: "(string \<times> AuthServerMetadata \<times> int) list"

section \<open>Token manager (\<^verbatim>\<open>tokenManager.ts\<close>)\<close>

definition storeTokens :: "env \<Rightarrow> modules \<Rightarrow> string \<Rightarrow> OAuthTokens \<Rightarrow> string \<Rightarrow> modules" where
  "storeTokens w st resourceUri tokens issuer =
     (let encrypted =
            \<lparr> accessToken = encrypt w (tokenKey st) (accessToken tokens),
              refreshToken = encryptOptional w (tokenKey st) (refreshToken tokens),
              tokenType = tokenType tokens,
              expiresAt = expiresAt tokens,
              scope = OAuthTokens.scope tokens,
              EncryptedTokens.issuer = issuer \<rparr>
      in st\<lparr>tokenStore := AList.update resourceUri encrypted (tokenStore st)\<rparr>)"
  for resourceUri issuer

definition getTokens :: "env \<Rightarrow> modules \<Rightarrow> string \<Rightarrow> error + OAuthTokens option" where
  "getTokens w st resourceUri =
     (case map_of (tokenStore st) resourceUri of
        None \<Rightarrow> Inr None
      | Some encrypted \<Rightarrow>
          (case decrypt w (tokenKey st) (accessToken encrypted) of
             Inl e \<Rightarrow> Inl e
           | Inr a \<Rightarrow>
               (case decryptOptional w (tokenKey st) (refreshToken encrypted) of
                  Inl e \<Rightarrow> Inl e
                | Inr r \<Rightarrow>
                    Inr (Some \<lparr> accessToken = a,
                                refreshToken = r,
                                tokenType = tokenType encrypted,
                                expiresAt = expiresAt encrypted,
                                scope = OAuthTokens.scope encrypted \<rparr>))))"
  for resourceUri

definition getTokenIssuer :: "modules \<Rightarrow> string \<Rightarrow> string option" where
  "getTokenIssuer st resourceUri =
     (case map_of (tokenStore st) resourceUri of
        None \<Rightarrow> None
      | Some encrypted \<Rightarrow>
          (if EncryptedTokens.issuer encrypted \<noteq> [] then Some (EncryptedTokens.issuer encrypted)
           else None))"
  for resourceUri

definition hasValidTokens :: "env \<Rightarrow> modules \<Rightarrow> int \<Rightarrow> string \<Rightarrow> error + bool" where
  "hasValidTokens w st now resourceUri =
     (case getTokens w st resourceUri of
        Inl e \<Rightarrow> Inl e
      | Inr None \<Rightarrow> Inr False
      | Inr (Some tokens) \<Rightarrow>
          (let bufferMs = 30 * 1000 in Inr (expiresAt tokens > now + bufferMs)))"
  for resourceUri

definition needsRefresh :: "env \<Rightarrow> modules \<Rightarrow> int \<Rightarrow> string \<Rightarrow> error + bool" where
  "needsRefresh w st now resourceUri =
     (case getTokens w st resourceUri of
        Inl e \<Rightarrow> Inl e
      | Inr None \<Rightarrow> Inr False
      | Inr (Some tokens) \<Rightarrow>
          (let refreshBufferMs = 5 * 60 * 1000 in Inr (expiresAt tokens < now + refreshBufferMs)))"
  for resourceUri

definition canRefresh :: "env \<Rightarrow> modules \<Rightarrow> string \<Rightarrow> error + bool" where
  "canRefresh w st resourceUri =
     (case getTokens w st resourceUri of
        Inl e \<Rightarrow> Inl e
      | Inr None \<Rightarrow> Inr False
      | Inr (Some tokens) \<Rightarrow> Inr (truthy (refreshToken tokens)))"
  for resourceUri

definition removeTokens :: "modules \<Rightarrow> string \<Rightarrow> bool \<times> modules" where
  "removeTokens st resourceUri =
     (map_of (tokenStore st) resourceUri \<noteq> None,
      st\<lparr>tokenStore := AList.delete resourceUri (tokenStore st)\<rparr>)"
  for resourceUri

text \<open>
  \<^verbatim>\<open>new Date(ms).toISOString()\<close>, which the code calls inside log messages, throws a
  \<^verbatim>\<open>RangeError\<close> beyond the range of a \<^verbatim>\<open>Date\<close>.
\<close>

definition validTimeValue :: "int \<Rightarrow> bool" where
  "validTimeValue ms = (\<bar>ms\<bar> \<le> 8640000000000000)"

text \<open>
  A \<open>TokenRequest\<close> is what is handed to \<^verbatim>\<open>fetch\<close>: the endpoint, the credentials of the
  \<^verbatim>\<open>Authorization: Basic\<close> header when there is one, and the form parameters.
\<close>

definition exchangeCodeForTokens ::
    "env \<Rightarrow> int \<Rightarrow> AuthServerMetadata \<Rightarrow> string \<Rightarrow> string \<Rightarrow> string \<Rightarrow> string \<Rightarrow> string option
       \<Rightarrow> string option \<Rightarrow> error + OAuthTokens" where
  "exchangeCodeForTokens w now metadata code redirectUri codeVerifier clientId clientSecret resourceUri =
     (let params = [(''grant_type'', ''authorization_code''), (''code'', code),
                    (''redirect_uri'', redirectUri), (''client_id'', clientId),
                    (''code_verifier'', codeVerifier)];
          params = (if truthy resourceUri then searchParams_set ''resource'' (the resourceUri) params
                    else params);
          request = (if truthy clientSecret
                     then \<lparr> url = token_endpoint metadata,
                            authorization = Some (clientId, the clientSecret),
                            body = searchParams_delete ''client_id'' params \<rparr>
                     else \<lparr> url = token_endpoint metadata, authorization = None, body = params \<rparr>)
      in case fetchToken w request of
           None \<Rightarrow> Inl FetchFailed
         | Some response \<Rightarrow>
             if \<not> ok response then Inl TokenExchangeFailed
             else (case json response of
                     None \<Rightarrow> Inl JsonRejected
                   | Some tokenResponse \<Rightarrow>
                       if access_token tokenResponse = [] then Inl MissingAccessToken
                       else
                         (let tokens =
                                \<lparr> accessToken = access_token tokenResponse,
                                  refreshToken = refresh_token tokenResponse,
                                  tokenType = (if token_type tokenResponse \<noteq> []
                                               then token_type tokenResponse else ''Bearer''),
                                  expiresAt = (if truthyNum (expires_in tokenResponse)
                                               then now + the (expires_in tokenResponse) * 1000
                                               else now + 3600 * 1000),
                                  scope = TokenResponse.scope tokenResponse \<rparr>
                          in if validTimeValue (expiresAt tokens) then Inr tokens
                             else Inl InvalidTimeValue)))"
  for redirectUri codeVerifier clientId clientSecret resourceUri

text \<open>The request of \<^verbatim>\<open>refreshTokens\<close>, from the decrypted refresh token.\<close>

definition refreshRequest ::
    "AuthServerMetadata \<Rightarrow> string \<Rightarrow> string \<Rightarrow> string option \<Rightarrow> string \<Rightarrow> TokenRequest" where
  "refreshRequest metadata resourceUri clientId clientSecret currentRefreshToken =
     (let params = [(''grant_type'', ''refresh_token''),
                    (''refresh_token'', currentRefreshToken),
                    (''client_id'', clientId)];
          params = searchParams_set ''resource'' resourceUri params
      in if truthy clientSecret
         then \<lparr> url = token_endpoint metadata,
                authorization = Some (clientId, the clientSecret),
                body = searchParams_delete ''client_id'' params \<rparr>
         else \<lparr> url = token_endpoint metadata, authorization = None, body = params \<rparr>)"
  for resourceUri clientId clientSecret

definition refreshTokens ::
    "env \<Rightarrow> modules \<Rightarrow> int \<Rightarrow> AuthServerMetadata \<Rightarrow> string \<Rightarrow> string \<Rightarrow> string option
       \<Rightarrow> (error + OAuthTokens) \<times> modules" where
  "refreshTokens w st now metadata resourceUri clientId clientSecret =
     (case getTokens w st resourceUri of
        Inl e \<Rightarrow> (Inl e, st)
      | Inr None \<Rightarrow> (Inl NoRefreshToken, st)
      | Inr (Some currentTokens) \<Rightarrow>
          if \<not> truthy (refreshToken currentTokens) then (Inl NoRefreshToken, st)
          else
            (case fetchToken w (refreshRequest metadata resourceUri clientId clientSecret
                                  (the (refreshToken currentTokens))) of
               None \<Rightarrow> (Inl FetchFailed, st)
             | Some response \<Rightarrow>
                 if \<not> ok response then
                   (if status response = 400 \<or> status response = 401
                    then (Inl TokenRefreshFailed, snd (removeTokens st resourceUri))
                    else (Inl TokenRefreshFailed, st))
                 else
                   (case json response of
                      None \<Rightarrow> (Inl JsonRejected, st)
                    | Some tokenResponse \<Rightarrow>
                        if access_token tokenResponse = [] then (Inl MissingAccessToken, st)
                        else
                          (let tokens =
                                 \<lparr> accessToken = access_token tokenResponse,
                                   refreshToken = (if truthy (refresh_token tokenResponse)
                                                   then refresh_token tokenResponse
                                                   else refreshToken currentTokens),
                                   tokenType = (if token_type tokenResponse \<noteq> []
                                                then token_type tokenResponse else ''Bearer''),
                                   expiresAt = (if truthyNum (expires_in tokenResponse)
                                                then now + the (expires_in tokenResponse) * 1000
                                                else now + 3600 * 1000),
                                   scope = (if truthy (TokenResponse.scope tokenResponse)
                                            then TokenResponse.scope tokenResponse
                                            else OAuthTokens.scope currentTokens) \<rparr>;
                               st' = (case getTokenIssuer st resourceUri of
                                        None \<Rightarrow> st
                                      | Some iss \<Rightarrow> storeTokens w st resourceUri tokens iss)
                           in if validTimeValue (expiresAt tokens) then (Inr tokens, st')
                              else (Inl InvalidTimeValue, st')))))"
  for resourceUri clientId clientSecret

section \<open>PKCE (\<^verbatim>\<open>pkce.ts\<close>)\<close>

text \<open>\<^verbatim>\<open>crypto.randomBytes(n)\<close> is the buffer of the \<open>n\<close> bytes \<open>randomByte w n i\<close>.\<close>

definition randomBytes :: "env \<Rightarrow> nat \<Rightarrow> 8 word list" where
  "randomBytes w n = map (randomByte w n) [0..<n]"

definition CODE_VERIFIER_CHARSET :: string where
  "CODE_VERIFIER_CHARSET =
     ''ABCDEFGHIJKLMNOPQRSTUVWXYZabcdefghijklmnopqrstuvwxyz0123456789-._~''"

definition generateCodeVerifier :: "env \<Rightarrow> nat \<Rightarrow> error + string" where
  "generateCodeVerifier w len =
     (if len < 43 \<or> len > 128 then Inl VerifierLengthOutOfRange
      else Inr (map (\<lambda>b. CODE_VERIFIER_CHARSET ! (unat b mod length CODE_VERIFIER_CHARSET))
                  (randomBytes w len)))"

definition base64UrlEncode :: "string \<Rightarrow> string" where
  "base64UrlEncode b64 =
     filter (\<lambda>c. c \<noteq> CHR ''='')
       (map (\<lambda>c. if c = CHR ''/'' then CHR ''_'' else c)
          (map (\<lambda>c. if c = CHR ''+'' then CHR ''-'' else c) b64))"

definition generateCodeChallengeS256 :: "env \<Rightarrow> string \<Rightarrow> string" where
  "generateCodeChallengeS256 w verifier = base64UrlEncode (sha256_base64 w verifier)"

definition generateCodeChallengePlain :: "string \<Rightarrow> string" where
  "generateCodeChallengePlain verifier = verifier"

datatype pkceMethod = S256 | plain

definition generateCodeChallenge :: "env \<Rightarrow> string \<Rightarrow> pkceMethod \<Rightarrow> string" where
  "generateCodeChallenge w verifier method =
     (case method of
        S256 \<Rightarrow> generateCodeChallengeS256 w verifier
      | plain \<Rightarrow> generateCodeChallengePlain verifier)"

definition hexDigits :: "8 word \<Rightarrow> string" where
  "hexDigits b = [''0123456789abcdef'' ! (unat b div 16), ''0123456789abcdef'' ! (unat b mod 16)]"

definition generateState :: "env \<Rightarrow> nat \<Rightarrow> string" where
  "generateState w len = concat (map hexDigits (randomBytes w len))"

definition verifyCodeChallenge :: "env \<Rightarrow> string \<Rightarrow> string \<Rightarrow> pkceMethod \<Rightarrow> bool" where
  "verifyCodeChallenge w verifier challenge method =
     (generateCodeChallenge w verifier method = challenge)"

definition selectPkceMethod :: "string list option \<Rightarrow> pkceMethod option" where
  "selectPkceMethod supportedMethods =
     (case supportedMethods of
        None \<Rightarrow> Some S256
      | Some ms \<Rightarrow>
          if ms = [] then Some S256
          else if ''S256'' \<in> set ms then Some S256
          else if ''plain'' \<in> set ms then Some plain
          else None)"

definition generatePkcePair :: "env \<Rightarrow> pkceMethod \<Rightarrow> error + string \<times> string \<times> pkceMethod" where
  "generatePkcePair w method =
     (case generateCodeVerifier w 64 of
        Inl e \<Rightarrow> Inl e
      | Inr verifier \<Rightarrow> Inr (verifier, generateCodeChallenge w verifier method, method))"

section \<open>Discovery (\<^verbatim>\<open>discovery.ts\<close>)\<close>

definition CACHE_TTL_MS :: int where
  "CACHE_TTL_MS = 3600 * 1000"

definition getProtectedResourceMetadataUrls :: "env \<Rightarrow> string \<Rightarrow> error + string list" where
  "getProtectedResourceMetadataUrls w serverUrl =
     (case parseURL w serverUrl of
        None \<Rightarrow> Inl InvalidURL
      | Some u \<Rightarrow>
          (let urls =
                 (if pathname u \<noteq> [] \<and> pathname u \<noteq> ''/''
                  then (let pathWithoutLeadingSlash =
                              stripTrailingSlash (stripLeadingSlash (pathname u))
                        in [origin u @ ''/.well-known/oauth-protected-resource/''
                              @ pathWithoutLeadingSlash])
                  else [])
           in Inr (urls @ [origin u @ ''/.well-known/oauth-protected-resource''])))"

text \<open>
  The body of the \<^verbatim>\<open>try\<close> block of a discovery loop up to the validation of the
  required fields: \<open>None\<close> when the block throws there (the \<^verbatim>\<open>catch\<close> logs the error
  and the loop goes on with the next URL).
\<close>

definition fetchProtectedResourceMetadata :: "env \<Rightarrow> string \<Rightarrow> ProtectedResourceMetadata option" where
  "fetchProtectedResourceMetadata w u =
     (case fetchProtectedResource w u of
        None \<Rightarrow> None
      | Some response \<Rightarrow>
          if \<not> ok response then None
          else (case json response of
                  None \<Rightarrow> None
                | Some metadata \<Rightarrow>
                    if resource metadata = [] \<or> authorization_servers metadata = [] then None
                    else Some metadata))"

fun protectedResourceLoop :: "env \<Rightarrow> string list \<Rightarrow> ProtectedResourceMetadata option" where
  "protectedResourceLoop w [] = None"
| "protectedResourceLoop w (u # urlsToTry) =
     (case fetchProtectedResourceMetadata w u of
        None \<Rightarrow> protectedResourceLoop w urlsToTry
      | Some metadata \<Rightarrow> Some metadata)"

definition discoverProtectedResourceMetadata ::
    "env \<Rightarrow> modules \<Rightarrow> int \<Rightarrow> string \<Rightarrow> string option
       \<Rightarrow> (error + ProtectedResourceMetadata) \<times> modules" where
  "discoverProtectedResourceMetadata w st now serverUrl resourceMetadataUrl =
     (let cacheKey = (if truthy resourceMetadataUrl then the resourceMetadataUrl else serverUrl);
          cached = map_of (protectedResourceMetadataCache st) cacheKey
      in if (case cached of None \<Rightarrow> False | Some (d, expires) \<Rightarrow> expires > now)
         then (Inr (fst (the cached)), st)
         else
           (case (if truthy resourceMetadataUrl then Inr [the resourceMetadataUrl]
                  else getProtectedResourceMetadataUrls w serverUrl) of
              Inl e \<Rightarrow> (Inl e, st)
            | Inr urlsToTry \<Rightarrow>
                (case protectedResourceLoop w urlsToTry of
                   Some metadata \<Rightarrow>
                     (Inr metadata,
                      st\<lparr>protectedResourceMetadataCache :=
                            AList.update cacheKey (metadata, now + CACHE_TTL_MS)
                              (protectedResourceMetadataCache st)\<rparr>)
                 | None \<Rightarrow> (Inl DiscoveryFailedProtectedResource, st))))"

definition getAuthServerMetadataUrls :: "env \<Rightarrow> string \<Rightarrow> error + string list" where
  "getAuthServerMetadataUrls w iss =
     (case parseURL w iss of
        None \<Rightarrow> Inl InvalidURL
      | Some u \<Rightarrow>
          if pathname u \<noteq> [] \<and> pathname u \<noteq> ''/''
          then (let pathWithoutLeadingSlash = stripTrailingSlash (stripLeadingSlash (pathname u))
                in Inr [origin u @ ''/.well-known/oauth-authorization-server/''
                          @ pathWithoutLeadingSlash,
                        origin u @ ''/.well-known/openid-configuration/''
                          @ pathWithoutLeadingSlash,
                        origin u @ ''/'' @ pathWithoutLeadingSlash
                          @ ''/.well-known/openid-configuration''])
          else Inr [origin u @ ''/.well-known/oauth-authorization-server'',
                    origin u @ ''/.well-known/openid-configuration''])"

definition fetchAuthServerMetadata :: "env \<Rightarrow> string \<Rightarrow> AuthServerMetadata option" where
  "fetchAuthServerMetadata w u =
     (case fetchAuthServer w u of
        None \<Rightarrow> None
      | Some response \<Rightarrow>
          if \<not> ok response then None
          else (case json response of
                  None \<Rightarrow> None
                | Some metadata \<Rightarrow>
                    if AuthServerMetadata.issuer metadata = []
                       \<or> authorization_endpoint metadata = []
                       \<or> token_endpoint metadata = []
                    then None
                    else Some metadata))"

text \<open>
  The loop of \<^verbatim>\<open>discoverAuthServerMetadata\<close> over \<^verbatim>\<open>urlsToTry\<close>, with the variable
  \<^verbatim>\<open>metadataWithMismatchedIssuer\<close> as an accumulator. It ends either by the
  \<^verbatim>\<open>return metadata\<close> inside the loop or by running out of URLs.
\<close>

datatype authServerLoopEnd =
    Returned AuthServerMetadata
  | Exhausted "AuthServerMetadata option"

fun authServerLoop ::
    "env \<Rightarrow> string \<Rightarrow> string list \<Rightarrow> AuthServerMetadata option \<Rightarrow> authServerLoopEnd" where
  "authServerLoop w iss [] metadataWithMismatchedIssuer = Exhausted metadataWithMismatchedIssuer"
| "authServerLoop w iss (u # urlsToTry) metadataWithMismatchedIssuer =
     (case fetchAuthServerMetadata w u of
        None \<Rightarrow> authServerLoop w iss urlsToTry metadataWithMismatchedIssuer
      | Some metadata \<Rightarrow>
          (let normalizedIssuer = stripTrailingSlash iss;
               normalizedMetadataIssuer = stripTrailingSlash (AuthServerMetadata.issuer metadata)
           in if normalizedIssuer \<noteq> normalizedMetadataIssuer
              then authServerLoop w iss urlsToTry
                     (if metadataWithMismatchedIssuer = None then Some metadata
                      else metadataWithMismatchedIssuer)
              else Returned metadata))"

definition discoverAuthServerMetadata ::
    "env \<Rightarrow> modules \<Rightarrow> int \<Rightarrow> string \<Rightarrow> (error + AuthServerMetadata) \<times> modules" where
  "discoverAuthServerMetadata w st now iss =
     (let cached = map_of (authServerMetadataCache st) iss
      in if (case cached of None \<Rightarrow> False | Some (d, expires) \<Rightarrow> expires > now)
         then (Inr (fst (the cached)), st)
         else
           (case getAuthServerMetadataUrls w iss of
              Inl e \<Rightarrow> (Inl e, st)
            | Inr urlsToTry \<Rightarrow>
                (case authServerLoop w iss urlsToTry None of
                   Returned metadata \<Rightarrow>
                     (Inr metadata,
                      st\<lparr>authServerMetadataCache :=
                            AList.update iss (metadata, now + CACHE_TTL_MS)
                              (authServerMetadataCache st)\<rparr>)
                 | Exhausted (Some metadataWithMismatchedIssuer) \<Rightarrow>
                     (Inr metadataWithMismatchedIssuer,
                      st\<lparr>authServerMetadataCache :=
                            AList.update iss (metadataWithMismatchedIssuer, now + CACHE_TTL_MS)
                              (authServerMetadataCache st)\<rparr>)
                 | Exhausted None \<Rightarrow> (Inl DiscoveryFailedAuthServer, st))))"

definition verifyPkceSupport :: "AuthServerMetadata \<Rightarrow> bool" where
  "verifyPkceSupport metadata =
     (case code_challenge_methods_supported metadata of
        None \<Rightarrow> False
      | Some supportedMethods \<Rightarrow>
          if supportedMethods = [] then False
          else if ''S256'' \<in> set supportedMethods then True
          else if ''plain'' \<in> set supportedMethods then True
          else False)"

definition supportsDcr :: "AuthServerMetadata \<Rightarrow> bool" where
  "supportsDcr metadata = truthy (registration_endpoint metadata)"

definition getCanonicalResourceUri :: "env \<Rightarrow> string \<Rightarrow> error + string" where
  "getCanonicalResourceUri w serverUrl =
     (case parseURL w serverUrl of
        None \<Rightarrow> Inl InvalidURL
      | Some u \<Rightarrow> Inr (stripTrailingSlash (protocol u @ ''//'' @ host u @ pathname u)))"

section \<open>Dynamic client registration (\<^verbatim>\<open>dcr.ts\<close>)\<close>

definition getClientCacheKey :: "string \<Rightarrow> string \<Rightarrow> string option \<Rightarrow> string" where
  "getClientCacheKey iss resourceUri redirectUri =
     (if truthy redirectUri then iss @ ''|'' @ resourceUri @ ''|'' @ the redirectUri
      else iss @ ''|'' @ resourceUri)"
  for resourceUri redirectUri

text \<open>
  \<^verbatim>\<open>client.clientSecretExpiresAt && client.clientSecretExpiresAt < Date.now() / 1000\<close>:
  the expiry is in seconds and the clock in milliseconds, and for a whole number \<open>e\<close> of
  seconds \<open>e < now / 1000\<close> is \<open>e * 1000 < now\<close>.
\<close>

definition secretExpired :: "RegisteredClient \<Rightarrow> int \<Rightarrow> bool" where
  "secretExpired client now =
     (truthyNum (clientSecretExpiresAt client) \<and> the (clientSecretExpiresAt client) * 1000 < now)"

text \<open>The object \<^verbatim>\<open>{...client, clientSecret: client.clientSecret ? decrypt(...) : undefined}\<close>.\<close>

definition withDecryptedSecret :: "env \<Rightarrow> key option \<Rightarrow> RegisteredClient \<Rightarrow> error + RegisteredClient" where
  "withDecryptedSecret w encryptionKey client =
     (case decryptOptional w encryptionKey (RegisteredClient.clientSecret client) of
        Inl e \<Rightarrow> Inl e
      | Inr secret \<Rightarrow> Inr (client\<lparr>RegisteredClient.clientSecret := secret\<rparr>))"

text \<open>
  The fallback loop of \<^verbatim>\<open>getRegisteredClient\<close> over \<^verbatim>\<open>registeredClients.entries()\<close>:
  the entries still to visit, and the map as the deletions so far have left it. Deleting
  the entry just visited does not disturb the iteration of a \<^verbatim>\<open>Map\<close>.
\<close>

fun fallbackSearch ::
    "string \<Rightarrow> int \<Rightarrow> (string \<times> RegisteredClient) list \<Rightarrow> (string \<times> RegisteredClient) list
       \<Rightarrow> RegisteredClient option \<times> (string \<times> RegisteredClient) list" where
  "fallbackSearch pre now [] clients = (None, clients)"
| "fallbackSearch pre now ((k, client) # entries) clients =
     (if prefix pre k then
        (if secretExpired client now
         then fallbackSearch pre now entries (AList.delete k clients)
         else (Some client, clients))
      else fallbackSearch pre now entries clients)"

definition getRegisteredClient ::
    "env \<Rightarrow> modules \<Rightarrow> int \<Rightarrow> string \<Rightarrow> string \<Rightarrow> string option
       \<Rightarrow> (error + RegisteredClient option) \<times> modules" where
  "getRegisteredClient w st now iss resourceUri redirectUri =
     (let keyWithRedirect = getClientCacheKey iss resourceUri redirectUri;
          clientWithRedirect = (if truthy redirectUri
                                then map_of (registeredClients st) keyWithRedirect else None)
      in if clientWithRedirect \<noteq> None \<and> \<not> secretExpired (the clientWithRedirect) now
         then (map_sum id Some (withDecryptedSecret w (dcrKey st) (the clientWithRedirect)), st)
         else
           (let st1 = (if clientWithRedirect \<noteq> None
                       then st\<lparr>registeredClients :=
                                 AList.delete keyWithRedirect (registeredClients st)\<rparr>
                       else st)
            in case fallbackSearch (iss @ ''|'' @ resourceUri) now
                      (registeredClients st1) (registeredClients st1) of
                 (None, clients) \<Rightarrow> (Inr None, st1\<lparr>registeredClients := clients\<rparr>)
               | (Some client, clients) \<Rightarrow>
                   (map_sum id Some (withDecryptedSecret w (dcrKey st) client),
                    st1\<lparr>registeredClients := clients\<rparr>)))"
  for resourceUri redirectUri

definition storeRegisteredClient ::
    "env \<Rightarrow> modules \<Rightarrow> int \<Rightarrow> string \<Rightarrow> string \<Rightarrow> string \<Rightarrow> DCRResponse
       \<Rightarrow> RegisteredClient \<times> modules" where
  "storeRegisteredClient w st now iss resourceUri redirectUri response =
     (let client =
            \<lparr> RegisteredClient.clientId = client_id response,
              RegisteredClient.clientSecret = encryptOptional w (dcrKey st) (client_secret response),
              RegisteredClient.issuer = iss,
              RegisteredClient.resourceUri = resourceUri,
              registeredAt = now,
              clientSecretExpiresAt = client_secret_expires_at response \<rparr>;
          k = getClientCacheKey iss resourceUri (Some redirectUri)
      in (client\<lparr>RegisteredClient.clientSecret := client_secret response\<rparr>,
          st\<lparr>registeredClients := AList.update k client (registeredClients st)\<rparr>))"
  for resourceUri redirectUri

definition buildDcrRequest :: "string \<Rightarrow> string \<Rightarrow> string list option \<Rightarrow> DCRRequest" where
  "buildDcrRequest redirectUri clientName scopes =
     \<lparr> redirect_uris = [redirectUri],
       client_name = clientName,
       grant_types = [''authorization_code'', ''refresh_token''],
       response_types = [''code''],
       token_endpoint_auth_method = ''client_secret_basic'',
       DCRRequest.scope = map_option (js_join '' '') scopes \<rparr>"
  for redirectUri scopes

definition registerClient ::
    "env \<Rightarrow> modules \<Rightarrow> int \<Rightarrow> AuthServerMetadata \<Rightarrow> string \<Rightarrow> string \<Rightarrow> string \<Rightarrow> string list option
       \<Rightarrow> (error + RegisteredClient) \<times> modules" where
  "registerClient w st now metadata resourceUri redirectUri clientName scopes =
     (if \<not> truthy (registration_endpoint metadata) then (Inl DcrUnsupported, st)
      else
        (case getRegisteredClient w st now (AuthServerMetadata.issuer metadata) resourceUri
                (Some redirectUri) of
           (Inl e, st1) \<Rightarrow> (Inl e, st1)
         | (Inr (Some existing), st1) \<Rightarrow> (Inr existing, st1)
         | (Inr None, st1) \<Rightarrow>
             (let request = buildDcrRequest redirectUri clientName scopes
              in case fetchRegistration w (the (registration_endpoint metadata)) request of
                   None \<Rightarrow> (Inl FetchFailed, st1)
                 | Some response \<Rightarrow>
                     if \<not> ok response \<and> status response \<noteq> 201 then (Inl DcrFailed, st1)
                     else
                       (case json response of
                          None \<Rightarrow> (Inl JsonRejected, st1)
                        | Some dcrResponse \<Rightarrow>
                            if client_id dcrResponse = [] then (Inl InvalidDcrResponse, st1)
                            else if truthyNum (client_secret_expires_at dcrResponse)
                                    \<and> \<not> validTimeValue
                                          (the (client_secret_expires_at dcrResponse) * 1000)
                            then (Inl InvalidTimeValue, st1)
                            else
                              (case storeRegisteredClient w st1 now
                                      (AuthServerMetadata.issuer metadata) resourceUri redirectUri
                                      dcrResponse of
                                 (client, st2) \<Rightarrow> (Inr client, st2))))))"
  for resourceUri redirectUri scopes

definition removeRegisteredClient :: "modules \<Rightarrow> string \<Rightarrow> string \<Rightarrow> bool \<times> modules" where
  "removeRegisteredClient st iss resourceUri =
     (let k = getClientCacheKey iss resourceUri None
      in (map_of (registeredClients st) k \<noteq> None,
          st\<lparr>registeredClients := AList.delete k (registeredClients st)\<rparr>))"
  for resourceUri

definition clearRegisteredClients :: "modules \<Rightarrow> modules" where
  "clearRegisteredClients st = st\<lparr>registeredClients := []\<rparr>"

section \<open>Authorization flow (\<^verbatim>\<open>authFlow.ts\<close>)\<close>

text \<open>
  The file \<^verbatim>\<open>.oauth-states.json\<close> holds one JSON object keyed by state value. The field
  \<open>statesFile\<close> is that object as the list of its entries in the order of
  \<^verbatim>\<open>Object.entries\<close>, \<open>None\<close> while there is no readable file. JavaScript lists the keys
  of an object that are array indices (canonical decimal numerals up to \<open>2\<^sup>3\<^sup>2 - 2\<close>) first,
  in ascending numeric order, and the other keys after them in insertion order:
  \<open>objectEntries\<close> is the object that \<^verbatim>\<open>saveStatesToFile\<close> builds from the entries of the
  \<^verbatim>\<open>Map\<close>. \<^verbatim>\<open>writeFileSync\<close> may throw, which \<^verbatim>\<open>saveStatesToFile\<close> catches:
  \<open>writeFileOk\<close> says whether the write goes through.
\<close>

definition decimalValue :: "string \<Rightarrow> nat" where
  "decimalValue s = foldl (\<lambda>n c. 10 * n + (of_char c - 48)) 0 s"

definition isArrayIndex :: "string \<Rightarrow> bool" where
  "isArrayIndex s =
     (case s of
        [] \<Rightarrow> False
      | c # cs \<Rightarrow>
          list_all (\<lambda>d. (48::nat) \<le> of_char d \<and> of_char d \<le> (57::nat)) s
          \<and> (if c = CHR ''0'' then cs = [] else decimalValue s \<le> 4294967294))"

definition objectEntries :: "(string \<times> 'a) list \<Rightarrow> (string \<times> 'a) list" where
  "objectEntries entries =
     sort_key (\<lambda>p. decimalValue (fst p)) (filter (\<lambda>p. isArrayIndex (fst p)) entries)
     @ filter (\<lambda>p. \<not> isArrayIndex (fst p)) entries"

definition STATE_TTL_MS :: int where
  "STATE_TTL_MS = 10 * 60 * 1000"

definition loadStatesFromFile :: "modules \<Rightarrow> int \<Rightarrow> modules" where
  "loadStatesFromFile st now =
     (case statesFile st of
        None \<Rightarrow> st
      | Some states \<Rightarrow>
          st\<lparr>pendingStates :=
               fold (\<lambda>(s, oauthState) pending.
                       if now - createdAt oauthState \<le> STATE_TTL_MS
                       then AList.update s oauthState pending else pending)
                 states (pendingStates st)\<rparr>)"

definition saveStatesToFile :: "env \<Rightarrow> modules \<Rightarrow> modules" where
  "saveStatesToFile w st =
     (if writeFileOk w then st\<lparr>statesFile := Some (objectEntries (pendingStates st))\<rparr>
      else st)"

text \<open>
  A start of the server process. The \<^verbatim>\<open>Map\<close>s of the modules are created empty, the
  module \<^verbatim>\<open>authFlow.ts\<close> calls \<^verbatim>\<open>loadStatesFromFile()\<close> on the file that the previous
  process left, and \<^verbatim>\<open>initializeOAuth\<close> derives the two keys again from the environment
  variable, taken here to be unchanged.
\<close>

definition restartProcess :: "modules \<Rightarrow> int \<Rightarrow> modules" where
  "restartProcess st now =
     loadStatesFromFile
       \<lparr> registeredClients = [], dcrKey = dcrKey st, tokenStore = [], tokenKey = tokenKey st,
         pendingStates = [], statesFile = statesFile st, resourceMetadataCache = [],
         protectedResourceMetadataCache = [], authServerMetadataCache = [] \<rparr>
       now"

fun cleanupLoop ::
    "int \<Rightarrow> (string \<times> OAuthState) list \<Rightarrow> (string \<times> OAuthState) list \<Rightarrow> bool
       \<Rightarrow> (string \<times> OAuthState) list \<times> bool" where
  "cleanupLoop now [] pending deleted = (pending, deleted)"
| "cleanupLoop now ((s, d) # entries) pending deleted =
     (if now - createdAt d > STATE_TTL_MS
      then cleanupLoop now entries (AList.delete s pending) True
      else cleanupLoop now entries pending deleted)"

definition cleanupExpiredStates :: "env \<Rightarrow> modules \<Rightarrow> int \<Rightarrow> modules" where
  "cleanupExpiredStates w st now =
     (case cleanupLoop now (pendingStates st) (pendingStates st) False of
        (pending, deleted) \<Rightarrow>
          if deleted then saveStatesToFile w (st\<lparr>pendingStates := pending\<rparr>)
          else st\<lparr>pendingStates := pending\<rparr>)"

text \<open>In \<^verbatim>\<open>getMetadata\<close> the result of \<open>verifyPkceSupport\<close> only decides a warning.\<close>

definition getMetadata ::
    "env \<Rightarrow> modules \<Rightarrow> int \<Rightarrow> string \<Rightarrow> string option
       \<Rightarrow> (error + ProtectedResourceMetadata \<times> AuthServerMetadata) \<times> modules" where
  "getMetadata w st now serverUrl resourceMetadataUrl =
     (case getCanonicalResourceUri w serverUrl of
        Inl e \<Rightarrow> (Inl e, st)
      | Inr resourceUri \<Rightarrow>
          (case map_of (resourceMetadataCache st) resourceUri of
             Some cached \<Rightarrow> (Inr cached, st)
           | None \<Rightarrow>
               (case discoverProtectedResourceMetadata w st now serverUrl resourceMetadataUrl of
                  (Inl e, st1) \<Rightarrow> (Inl e, st1)
                | (Inr protectedResource, st1) \<Rightarrow>
                    (case authorization_servers protectedResource of
                       [] \<Rightarrow> (Inl NoAuthorizationServer, st1)
                     | iss # _ \<Rightarrow>
                         if iss = [] then (Inl NoAuthorizationServer, st1)
                         else
                           (case discoverAuthServerMetadata w st1 now iss of
                              (Inl e, st2) \<Rightarrow> (Inl e, st2)
                            | (Inr authServer, st2) \<Rightarrow>
                                (Inr (protectedResource, authServer),
                                 st2\<lparr>resourceMetadataCache :=
                                       AList.update resourceUri (protectedResource, authServer)
                                         (resourceMetadataCache st2)\<rparr>))))))"
  for resourceUri

definition getOrRegisterClient ::
    "env \<Rightarrow> modules \<Rightarrow> int \<Rightarrow> AuthServerMetadata \<Rightarrow> string \<Rightarrow> OAuthConfig
       \<Rightarrow> (error + string \<times> string option) \<times> modules" where
  "getOrRegisterClient w st now authServer resourceUri config =
     (if truthy (OAuthConfig.clientId config)
      then (Inr (the (OAuthConfig.clientId config), OAuthConfig.clientSecret config), st)
      else
        (case getRegisteredClient w st now (AuthServerMetadata.issuer authServer) resourceUri
                (Some (OAuthConfig.redirectUri config)) of
           (Inl e, st1) \<Rightarrow> (Inl e, st1)
         | (Inr (Some existing), st1) \<Rightarrow>
             (Inr (RegisteredClient.clientId existing, RegisteredClient.clientSecret existing), st1)
         | (Inr None, st1) \<Rightarrow>
             if \<not> supportsDcr authServer then (Inl NoClientCredentials, st1)
             else
               (case registerClient w st1 now authServer resourceUri
                       (OAuthConfig.redirectUri config) ''MCP Client'' (OAuthConfig.scopes config) of
                  (Inl e, st2) \<Rightarrow> (Inl e, st2)
                | (Inr registered, st2) \<Rightarrow>
                    (Inr (RegisteredClient.clientId registered,
                          RegisteredClient.clientSecret registered), st2))))"
  for resourceUri

text \<open>
  The authorization URL is kept as the \<open>URL\<close> object that \<^verbatim>\<open>buildAuthorizationUrl\<close>
  serialises with \<^verbatim>\<open>url.toString()\<close>; its query is \<open>searchParams\<close>.
\<close>

definition pkceMethodName :: "pkceMethod \<Rightarrow> string" where
  "pkceMethodName m = (case m of S256 \<Rightarrow> ''S256'' | plain \<Rightarrow> ''plain'')"

definition buildAuthorizationUrl ::
    "env \<Rightarrow> AuthServerMetadata \<Rightarrow> string \<Rightarrow> string \<Rightarrow> string \<Rightarrow> string \<Rightarrow> pkceMethod \<Rightarrow> string
       \<Rightarrow> string list option \<Rightarrow> error + URL" where
  "buildAuthorizationUrl w authServer clientId redirectUri state codeChallenge codeChallengeMethod
       resourceUri scopes =
     (case parseURL w (authorization_endpoint authServer) of
        None \<Rightarrow> Inl InvalidURL
      | Some u \<Rightarrow>
          (let q = searchParams u;
               q = searchParams_set ''response_type'' ''code'' q;
               q = searchParams_set ''client_id'' clientId q;
               q = searchParams_set ''redirect_uri'' redirectUri q;
               q = searchParams_set ''state'' state q;
               q = searchParams_set ''code_challenge'' codeChallenge q;
               q = searchParams_set ''code_challenge_method'' (pkceMethodName codeChallengeMethod) q;
               q = searchParams_set ''resource'' resourceUri q;
               q = (if scopes \<noteq> None \<and> length (the scopes) > 0
                    then searchParams_set ''scope'' (js_join '' '' (the scopes)) q
                    else if AuthServerMetadata.scopes_supported authServer \<noteq> None
                            \<and> length (the (AuthServerMetadata.scopes_supported authServer)) > 0
                    then searchParams_set ''scope''
                           (js_join '' '' (the (AuthServerMetadata.scopes_supported authServer))) q
                    else q)
           in Inr (u\<lparr>searchParams := q\<rparr>)))"
  for clientId redirectUri state resourceUri scopes

definition initiateAuthFlow ::
    "env \<Rightarrow> modules \<Rightarrow> int \<Rightarrow> string \<Rightarrow> OAuthConfig \<Rightarrow> string option \<Rightarrow> string option
       \<Rightarrow> (error + URL \<times> string) \<times> modules" where
  "initiateAuthFlow w st now serverUrl config resourceMetadataUrl challengedScopes =
     (let st0 = cleanupExpiredStates w st now
      in case getCanonicalResourceUri w serverUrl of
           Inl e \<Rightarrow> (Inl e, st0)
         | Inr resourceUri \<Rightarrow>
             (case getMetadata w st0 now serverUrl resourceMetadataUrl of
                (Inl e, st1) \<Rightarrow> (Inl e, st1)
              | (Inr (protectedResource, authServer), st1) \<Rightarrow>
                  (case getOrRegisterClient w st1 now authServer resourceUri config of
                     (Inl e, st2) \<Rightarrow> (Inl e, st2)
                   | (Inr (clientId, clientSecret), st2) \<Rightarrow>
                       (let scopes = OAuthConfig.scopes config;
                            scopes =
                              (if truthy challengedScopes
                               then Some (js_split CHR '' '' (the challengedScopes))
                               else if scopes = None
                                       \<and> ProtectedResourceMetadata.scopes_supported protectedResource
                                           \<noteq> None
                               then ProtectedResourceMetadata.scopes_supported protectedResource
                               else scopes);
                            pkceMethod =
                              (case selectPkceMethod (code_challenge_methods_supported authServer) of
                                 None \<Rightarrow> S256
                               | Some m \<Rightarrow> m)
                        in case generatePkcePair w pkceMethod of
                             Inl e \<Rightarrow> (Inl e, st2)
                           | Inr (verifier, challenge, method) \<Rightarrow>
                               (let state = generateState w 32;
                                    oauthState =
                                      \<lparr> OAuthState.state = state,
                                        codeVerifier = verifier,
                                        OAuthState.redirectUri = OAuthConfig.redirectUri config,
                                        OAuthState.resourceUri = resourceUri,
                                        OAuthState.issuer = AuthServerMetadata.issuer authServer,
                                        createdAt = now,
                                        OAuthState.scopes = scopes \<rparr>;
                                    st3 = saveStatesToFile w
                                            (st2\<lparr>pendingStates :=
                                                   AList.update state oauthState (pendingStates st2)\<rparr>)
                                in case buildAuthorizationUrl w authServer clientId
                                          (OAuthConfig.redirectUri config) state challenge method
                                          resourceUri scopes of
                                     Inl e \<Rightarrow> (Inl e, st3)
                                   | Inr authorizationUrl \<Rightarrow>
                                       (Inr (authorizationUrl, state), st3))))))"
  for resourceUri clientId clientSecret

definition handleAuthCallback ::
    "env \<Rightarrow> modules \<Rightarrow> int \<Rightarrow> string \<Rightarrow> string \<Rightarrow> OAuthConfig
       \<Rightarrow> (error + OAuthTokens) \<times> modules" where
  "handleAuthCallback w st now code state config =
     (case map_of (pendingStates st) state of
        None \<Rightarrow> (Inl InvalidOrExpiredState, st)
      | Some oauthState \<Rightarrow>
          (let st0 = saveStatesToFile w
                       (st\<lparr>pendingStates := AList.delete state (pendingStates st)\<rparr>)
           in if now - createdAt oauthState > STATE_TTL_MS then (Inl StateExpired, st0)
              else
                (case discoverAuthServerMetadata w st0 now (OAuthState.issuer oauthState) of
                   (Inl e, st1) \<Rightarrow> (Inl e, st1)
                 | (Inr authServer, st1) \<Rightarrow>
                     (case getOrRegisterClient w st1 now authServer
                             (OAuthState.resourceUri oauthState) config of
                        (Inl e, st2) \<Rightarrow> (Inl e, st2)
                      | (Inr (clientId, clientSecret), st2) \<Rightarrow>
                          (case exchangeCodeForTokens w now authServer code
                                  (OAuthState.redirectUri oauthState) (codeVerifier oauthState)
                                  clientId clientSecret
                                  (Some (OAuthState.resourceUri oauthState)) of
                             Inl e \<Rightarrow> (Inl e, st2)
                           | Inr tokens \<Rightarrow>
                               (Inr tokens,
                                storeTokens w st2 (OAuthState.resourceUri oauthState) tokens
                                  (OAuthState.issuer oauthState)))))))"
  for state clientId clientSecret

definition getPendingState :: "modules \<Rightarrow> string \<Rightarrow> OAuthState option" where
  "getPendingState st state = map_of (pendingStates st) state"
  for state

section \<open>An example deployment\<close>

text \<open>
  Concrete values on which the properties below are exercised: an environment in which
  every network call fails, an empty module state, and the resource and authorization
  server of the scenarios of the specification.
\<close>

definition offlineEnv :: env where
  "offlineEnv =
     \<lparr> parseURL = (\<lambda>_. None),
       fetchProtectedResource = (\<lambda>_. None),
       fetchAuthServer = (\<lambda>_. None),
       fetchRegistration = (\<lambda>_ _. None),
       fetchToken = (\<lambda>_. None),
       randomByte = (\<lambda>_ _. 0),
       sha256_base64 = (\<lambda>_. []),
       cipher = (\<lambda>k t. ([], [], t)),
       decipher = (\<lambda>k iv tag ct. Some ct),
       writeFileOk = True \<rparr>"

definition emptyModules :: modules where
  "emptyModules =
     \<lparr> registeredClients = [], dcrKey = None, tokenStore = [], tokenKey = None,
       pendingStates = [], statesFile = None, resourceMetadataCache = [],
       protectedResourceMetadataCache = [], authServerMetadataCache = [] \<rparr>"

definition exampleAuthServer :: AuthServerMetadata where
  "exampleAuthServer =
     \<lparr> AuthServerMetadata.issuer = ''https://auth.example.com'',
       authorization_endpoint = ''https://auth.example.com/authorize'',
       token_endpoint = ''https://auth.example.com/token'',
       registration_endpoint = Some ''https://auth.example.com/register'',
       AuthServerMetadata.scopes_supported = None,
       code_challenge_methods_supported = Some [''S256''],
       revocation_endpoint = None \<rparr>"

definition storedTokens :: EncryptedTokens where
  "storedTokens =
     \<lparr> accessToken = ''access-1'', refreshToken = Some ''refresh-1'', tokenType = ''Bearer'',
       expiresAt = 5000000, scope = None, EncryptedTokens.issuer = ''https://auth.example.com'' \<rparr>"

definition tokenModules :: modules where
  "tokenModules = emptyModules\<lparr>tokenStore := [(''https://mcp.example.com/api'', storedTokens)]\<rparr>"

text \<open>A token endpoint that answers every request with the given status and no body.\<close>

definition tokenStatusEnv :: "nat \<Rightarrow> env" where
  "tokenStatusEnv code = offlineEnv\<lparr>fetchToken := (\<lambda>_. Some \<lparr>status = code, json = None\<rparr>)\<rparr>"

text \<open>
  The issuer-mismatch scenario: the OAuth well-known URL of \<^verbatim>\<open>https://auth.example.com\<close>
  does not answer, and its OIDC discovery URL serves a complete document whose issuer is
  \<^verbatim>\<open>https://auth.example.com/tenantA\<close>.
\<close>

definition tenantMetadata :: AuthServerMetadata where
  "tenantMetadata = exampleAuthServer\<lparr>AuthServerMetadata.issuer := ''https://auth.example.com/tenantA''\<rparr>"

definition exampleParseURL :: "string \<Rightarrow> URL option" where
  "exampleParseURL s =
     (if s = ''https://auth.example.com''
      then Some \<lparr> protocol = ''https:'', host = ''auth.example.com'', port = [],
                  origin = ''https://auth.example.com'', pathname = ''/'', searchParams = [] \<rparr>
      else if s = ''https://auth.example.com/authorize''
      then Some \<lparr> protocol = ''https:'', host = ''auth.example.com'', port = [],
                  origin = ''https://auth.example.com'', pathname = ''/authorize'',
                  searchParams = [] \<rparr>
      else if s = ''https://mcp.example.com/api''
      then Some \<lparr> protocol = ''https:'', host = ''mcp.example.com'', port = [],
                  origin = ''https://mcp.example.com'', pathname = ''/api'', searchParams = [] \<rparr>
      else None)"

definition tenantEnv :: env where
  "tenantEnv =
     offlineEnv\<lparr> parseURL := exampleParseURL,
                 fetchAuthServer :=
                   (\<lambda>u. if u = ''https://auth.example.com/.well-known/openid-configuration''
                        then Some \<lparr>status = 200, json = Some tenantMetadata\<rparr> else None) \<rparr>"

definition unreachableEnv :: env where
  "unreachableEnv = offlineEnv\<lparr>parseURL := exampleParseURL\<rparr>"

text \<open>
  A registration endpoint that answers every request with the given status and document,
  and the document of a client issued without a secret.
\<close>

definition registrationEnv :: "nat \<Rightarrow> DCRResponse option \<Rightarrow> env" where
  "registrationEnv code document =
     offlineEnv\<lparr>fetchRegistration := (\<lambda>_ _. Some \<lparr>status = code, json = document\<rparr>)\<rparr>"

definition issuedClient :: DCRResponse where
  "issuedClient = \<lparr> client_id = ''client-1'', client_secret = None,
                    client_secret_expires_at = None \<rparr>"

definition anonymousClient :: DCRResponse where
  "anonymousClient = \<lparr> client_id = [], client_secret = None, client_secret_expires_at = None \<rparr>"

text \<open>
  A client registered for the resource \<^verbatim>\<open>https://mcp.example.com/api2\<close>, cached under the
  key of that resource.
\<close>

definition api2Client :: RegisteredClient where
  "api2Client =
     \<lparr> RegisteredClient.clientId = ''client-for-api2'',
       RegisteredClient.clientSecret = None,
       RegisteredClient.issuer = ''https://auth.example.com'',
       RegisteredClient.resourceUri = ''https://mcp.example.com/api2'',
       registeredAt = 0,
       clientSecretExpiresAt = None \<rparr>"

definition api2Modules :: modules where
  "api2Modules =
     emptyModules\<lparr>registeredClients :=
       [(''https://auth.example.com|https://mcp.example.com/api2|http://localhost:3000/callback'',
         api2Client)]\<rparr>"

text \<open>
  A client whose secret expired at second 1, cached under the key of
  \<^verbatim>\<open>https://mcp.example.com/api\<close>.
\<close>

definition expiredClient :: RegisteredClient where
  "expiredClient =
     \<lparr> RegisteredClient.clientId = ''client-0'',
       RegisteredClient.clientSecret = Some ''secret-0'',
       RegisteredClient.issuer = ''https://auth.example.com'',
       RegisteredClient.resourceUri = ''https://mcp.example.com/api'',
       registeredAt = 0,
       clientSecretExpiresAt = Some 1 \<rparr>"

definition expiredModules :: modules where
  "expiredModules =
     emptyModules\<lparr>registeredClients :=
       [(''https://auth.example.com|https://mcp.example.com/api|http://localhost:3000/callback'',
         expiredClient)]\<rparr>"

text \<open>
  The flow scenario: the metadata of \<^verbatim>\<open>https://mcp.example.com/api\<close> is already in the
  orchestrator's cache, the client is pre-configured and asks for the scope \<^verbatim>\<open>read\<close>.
\<close>

definition exampleProtectedResource :: ProtectedResourceMetadata where
  "exampleProtectedResource =
     \<lparr> resource = ''https://mcp.example.com/api'',
       authorization_servers = [''https://auth.example.com''],
       ProtectedResourceMetadata.scopes_supported = Some [''read'', ''list''] \<rparr>"

definition exampleConfig :: OAuthConfig where
  "exampleConfig =
     \<lparr> enabled = True,
       OAuthConfig.issuer = None,
       OAuthConfig.clientId = Some ''client-1'',
       OAuthConfig.clientSecret = None,
       OAuthConfig.scopes = Some [''read''],
       OAuthConfig.redirectUri = ''http://localhost:3000/callback'' \<rparr>"

definition cachedModules :: modules where
  "cachedModules =
     emptyModules\<lparr>resourceMetadataCache :=
       [(''https://mcp.example.com/api'', (exampleProtectedResource, exampleAuthServer))]\<rparr>"

text \<open>
  A pending authorization created at time 1000000, with the metadata of its issuer in
  the discovery cache, and a token endpoint that issues a token for every request.
\<close>

definition examplePending :: OAuthState where
  "examplePending =
     \<lparr> OAuthState.state = ''5f2a'',
       codeVerifier = ''verifier-1'',
       OAuthState.redirectUri = ''http://localhost:3000/callback'',
       OAuthState.resourceUri = ''https://mcp.example.com/api'',
       OAuthState.issuer = ''https://auth.example.com'',
       createdAt = 1000000,
       OAuthState.scopes = None \<rparr>"

definition pendingModules :: modules where
  "pendingModules =
     emptyModules\<lparr> pendingStates := [(''5f2a'', examplePending)],
                   authServerMetadataCache :=
                     [(''https://auth.example.com'', (exampleAuthServer, 9000000))] \<rparr>"

definition issuedTokens :: TokenResponse where
  "issuedTokens =
     \<lparr> access_token = ''access-2'', token_type = ''Bearer'', expires_in = Some 3600,
       refresh_token = None, TokenResponse.scope = None \<rparr>"

definition issuingEnv :: env where
  "issuingEnv = offlineEnv\<lparr>fetchToken := (\<lambda>_. Some \<lparr>status = 200, json = Some issuedTokens\<rparr>)\<rparr>"

text \<open>
  An environment in which the authorization server of the scenario publishes its own
  metadata and issues a token for every request, and the same environment with a state
  file that cannot be written.
\<close>

definition servingEnv :: env where
  "servingEnv =
     offlineEnv\<lparr> parseURL := exampleParseURL,
                 fetchAuthServer :=
                   (\<lambda>u. if u = ''https://auth.example.com/.well-known/oauth-authorization-server''
                        then Some \<lparr>status = 200, json = Some exampleAuthServer\<rparr> else None),
                 fetchToken := (\<lambda>_. Some \<lparr>status = 200, json = Some issuedTokens\<rparr>) \<rparr>"

definition failingDiskEnv :: env where
  "failingDiskEnv = servingEnv\<lparr>writeFileOk := False\<rparr>"

section \<open>Properties of the containers\<close>

lemma js_split_nonempty: "js_split c s \<noteq> []"
  by (induction s) (auto split: list.splits)

lemma js_join_split: "js_join [c] (js_split c s) = s"
proof (induction s)
  case Nil
  then show ?case by simp
next
  case (Cons x xs)
  show ?case
  proof (cases "x = c")
    case True
    with Cons show ?thesis
      by (cases "js_split c xs") (auto simp: js_split_nonempty)
  next
    case False
    with Cons show ?thesis
      by (cases "js_split c xs"; cases "tl (js_split c xs)") (auto simp: js_split_nonempty)
  qed
qed

lemma searchParams_get_set_same: "searchParams_get k (searchParams_set k v q) = Some v"
  by (induction q) (auto simp: searchParams_get_def)

lemma map_of_filter_other: "k' \<noteq> k \<Longrightarrow> map_of (filter (\<lambda>q. fst q \<noteq> k') ps) k = map_of ps k"
  by (induction ps) auto

lemma searchParams_get_set_other:
  "k' \<noteq> k \<Longrightarrow> searchParams_get k (searchParams_set k' v q) = searchParams_get k q"
  by (induction q) (auto simp: searchParams_get_def map_of_filter_other)

section \<open>Properties of the token manager\<close>

lemma getTokens_removeTokens: "getTokens w (snd (removeTokens st uri)) uri = Inr None"
  by (simp add: getTokens_def removeTokens_def map_of_delete delete_conv')

lemma getTokens_stored:
  "getTokens w st uri = Inr (Some tokens) \<Longrightarrow>
     \<exists>encrypted. map_of (tokenStore st) uri = Some encrypted
                  \<and> expiresAt encrypted = expiresAt tokens"
  by (auto simp: getTokens_def split: option.splits sum.splits)

lemma getTokens_none: "(getTokens w st uri = Inr None) = (map_of (tokenStore st) uri = None)"
  by (auto simp: getTokens_def split: option.splits sum.splits)

text \<open>
  C4. Whenever \<open>hasValidTokens\<close> returns, it returns \<^verbatim>\<open>true\<close> exactly when tokens are stored
  for the resource and their \<open>expiresAt\<close> lies more than 30 seconds after the current time
  (it throws only if the stored ciphertext does not decipher); it returns \<^verbatim>\<open>true\<close>
  exactly when \<open>getTokens\<close> yields such tokens; and for the tokens that \<open>getTokens\<close> yields
  it is \<^verbatim>\<open>true\<close> 31 seconds before their \<open>expiresAt\<close> and \<^verbatim>\<open>false\<close> 29 seconds before it.
\<close>

theorem hasValidTokens_buffer:
  "(hasValidTokens w st now uri = Inr b \<longrightarrow>
      b = (\<exists>encrypted. map_of (tokenStore st) uri = Some encrypted
                        \<and> expiresAt encrypted > now + 30 * 1000))
   \<and> ((hasValidTokens w st now uri = Inr True) =
        (\<exists>tokens. getTokens w st uri = Inr (Some tokens) \<and> expiresAt tokens > now + 30 * 1000))
   \<and> (getTokens w st uri = Inr (Some stored) \<longrightarrow>
        hasValidTokens w st (expiresAt stored - 31 * 1000) uri = Inr True
        \<and> hasValidTokens w st (expiresAt stored - 29 * 1000) uri = Inr False)"
proof (intro conjI impI)
  assume "hasValidTokens w st now uri = Inr b"
  then show "b = (\<exists>encrypted. map_of (tokenStore st) uri = Some encrypted
                               \<and> expiresAt encrypted > now + 30 * 1000)"
    by (auto simp: hasValidTokens_def getTokens_none
             split: sum.splits option.splits dest: getTokens_stored)
next
  show "(hasValidTokens w st now uri = Inr True) =
          (\<exists>tokens. getTokens w st uri = Inr (Some tokens) \<and> expiresAt tokens > now + 30 * 1000)"
    by (auto simp: hasValidTokens_def split: sum.splits option.splits)
next
  assume g: "getTokens w st uri = Inr (Some stored)"
  then show "hasValidTokens w st (expiresAt stored - 31 * 1000) uri = Inr True"
    by (simp add: hasValidTokens_def)
  from g show "hasValidTokens w st (expiresAt stored - 29 * 1000) uri = Inr False"
    by (simp add: hasValidTokens_def)
qed

theorem hasValidTokens_buffer_witness:
  "getTokens offlineEnv tokenModules ''https://mcp.example.com/api''
     = Inr (Some (OAuthTokens.truncate storedTokens))
   \<and> hasValidTokens offlineEnv tokenModules (5000000 - 31 * 1000) ''https://mcp.example.com/api''
       = Inr True
   \<and> hasValidTokens offlineEnv tokenModules (5000000 - 29 * 1000) ''https://mcp.example.com/api''
       = Inr False
   \<and> (\<exists>encrypted. map_of (tokenStore tokenModules) ''https://mcp.example.com/api''
                       = Some encrypted
                     \<and> expiresAt encrypted > (5000000 - 31 * 1000) + 30 * 1000)"
proof -
  have h: "getTokens offlineEnv tokenModules ''https://mcp.example.com/api''
             = Inr (Some (OAuthTokens.truncate storedTokens))"
    by (simp add: getTokens_def tokenModules_def emptyModules_def storedTokens_def decrypt_def
          decryptOptional_def truthy_def OAuthTokens.truncate_def)
  have e: "expiresAt (OAuthTokens.truncate storedTokens) = 5000000"
    by (simp add: storedTokens_def OAuthTokens.truncate_def)
  have v: "hasValidTokens offlineEnv tokenModules (5000000 - 31 * 1000)
             ''https://mcp.example.com/api'' = Inr True
           \<and> hasValidTokens offlineEnv tokenModules (5000000 - 29 * 1000)
               ''https://mcp.example.com/api'' = Inr False"
    using hasValidTokens_buffer [THEN conjunct2, THEN conjunct2, rule_format, OF h]
    by (simp only: e)
  have s: "True = (\<exists>encrypted. map_of (tokenStore tokenModules) ''https://mcp.example.com/api''
                                  = Some encrypted
                                \<and> expiresAt encrypted > (5000000 - 31 * 1000) + 30 * 1000)"
    using hasValidTokens_buffer [THEN conjunct1, rule_format, OF v [THEN conjunct1]] .
  show ?thesis
    using h v s by blast
qed

text \<open>
  C5. When tokens with a refresh token are stored for the resource and the token endpoint
  answers the refresh request with status 400 or 401, \<open>refreshTokens\<close> throws the
  refresh-failure error and has deleted the stored tokens: \<open>getTokens\<close> for the resource
  returns \<^verbatim>\<open>null\<close> afterwards.
\<close>

theorem refreshTokens_rejected_clears:
  assumes "getTokens w st uri = Inr (Some currentTokens)"
    and "truthy (refreshToken currentTokens)"
    and "fetchToken w (refreshRequest metadata uri cid secret (the (refreshToken currentTokens)))
           = Some response"
    and "status response = 400 \<or> status response = 401"
  shows "fst (refreshTokens w st now metadata uri cid secret) = Inl TokenRefreshFailed
         \<and> getTokens w' (snd (refreshTokens w st now metadata uri cid secret)) uri = Inr None"
  using assms by (auto simp: refreshTokens_def ok_def getTokens_removeTokens)

theorem refreshTokens_rejected_clears_witness:
  "fst (refreshTokens (tokenStatusEnv 401) tokenModules 0 exampleAuthServer
          ''https://mcp.example.com/api'' ''client-1'' None) = Inl TokenRefreshFailed
   \<and> getTokens offlineEnv
        (snd (refreshTokens (tokenStatusEnv 401) tokenModules 0 exampleAuthServer
                ''https://mcp.example.com/api'' ''client-1'' None))
        ''https://mcp.example.com/api'' = Inr None"
proof -
  have h: "getTokens (tokenStatusEnv 401) tokenModules ''https://mcp.example.com/api''
             = Inr (Some (OAuthTokens.truncate storedTokens))"
    by (simp add: getTokens_def tokenModules_def emptyModules_def storedTokens_def decrypt_def
          decryptOptional_def truthy_def OAuthTokens.truncate_def)
  have t: "truthy (refreshToken (OAuthTokens.truncate storedTokens))"
    by (simp add: storedTokens_def OAuthTokens.truncate_def truthy_def)
  have f: "fetchToken (tokenStatusEnv 401)
             (refreshRequest exampleAuthServer ''https://mcp.example.com/api'' ''client-1'' None
                (the (refreshToken (OAuthTokens.truncate storedTokens))))
             = Some \<lparr>status = 401, json = None\<rparr>"
    by (simp add: tokenStatusEnv_def)
  have s: "status \<lparr>status = 401, json = None :: TokenResponse option\<rparr> = 400
           \<or> status \<lparr>status = 401, json = None :: TokenResponse option\<rparr> = 401"
    by simp
  show ?thesis
    using refreshTokens_rejected_clears [OF h t f s, where now = 0 and w' = offlineEnv] by simp
qed

text \<open>
  C10. When tokens with a refresh token are stored for the resource and the token
  endpoint answers the refresh request with a status that is neither a success nor 400 nor
  401, \<open>refreshTokens\<close> throws and leaves the module state as it was: \<open>getTokens\<close> for the
  resource returns the same tokens as before.
\<close>

theorem refreshTokens_server_error_keeps:
  assumes "getTokens w st uri = Inr (Some currentTokens)"
    and "truthy (refreshToken currentTokens)"
    and "fetchToken w (refreshRequest metadata uri cid secret (the (refreshToken currentTokens)))
           = Some response"
    and "\<not> ok response" and "status response \<noteq> 400" and "status response \<noteq> 401"
  shows "fst (refreshTokens w st now metadata uri cid secret) = Inl TokenRefreshFailed
         \<and> snd (refreshTokens w st now metadata uri cid secret) = st
         \<and> getTokens w (snd (refreshTokens w st now metadata uri cid secret)) uri
             = Inr (Some currentTokens)"
  using assms by (auto simp: refreshTokens_def)

theorem refreshTokens_server_error_keeps_witness:
  "fst (refreshTokens (tokenStatusEnv 503) tokenModules 0 exampleAuthServer
          ''https://mcp.example.com/api'' ''client-1'' None) = Inl TokenRefreshFailed
   \<and> snd (refreshTokens (tokenStatusEnv 503) tokenModules 0 exampleAuthServer
          ''https://mcp.example.com/api'' ''client-1'' None) = tokenModules
   \<and> getTokens (tokenStatusEnv 503)
        (snd (refreshTokens (tokenStatusEnv 503) tokenModules 0 exampleAuthServer
                ''https://mcp.example.com/api'' ''client-1'' None))
        ''https://mcp.example.com/api'' = Inr (Some (OAuthTokens.truncate storedTokens))"
proof -
  have h: "getTokens (tokenStatusEnv 503) tokenModules ''https://mcp.example.com/api''
             = Inr (Some (OAuthTokens.truncate storedTokens))"
    by (simp add: getTokens_def tokenModules_def emptyModules_def storedTokens_def decrypt_def
          decryptOptional_def truthy_def OAuthTokens.truncate_def)
  have t: "truthy (refreshToken (OAuthTokens.truncate storedTokens))"
    by (simp add: storedTokens_def OAuthTokens.truncate_def truthy_def)
  have f: "fetchToken (tokenStatusEnv 503)
             (refreshRequest exampleAuthServer ''https://mcp.example.com/api'' ''client-1'' None
                (the (refreshToken (OAuthTokens.truncate storedTokens))))
             = Some \<lparr>status = 503, json = None\<rparr>"
    by (simp add: tokenStatusEnv_def)
  have n: "\<not> ok \<lparr>status = 503, json = None :: TokenResponse option\<rparr>"
    by (simp add: ok_def)
  have s0: "status \<lparr>status = 503, json = None :: TokenResponse option\<rparr> \<noteq> 400"
    by simp
  have s1: "status \<lparr>status = 503, json = None :: TokenResponse option\<rparr> \<noteq> 401"
    by simp
  show ?thesis
    using h refreshTokens_server_error_keeps [OF h t f n s0 s1, where now = 0] by simp
qed

section \<open>Properties of discovery\<close>

lemma authServerLoop_no_match:
  assumes "\<forall>u\<in>set urls. \<forall>md. fetchAuthServerMetadata w u = Some md \<longrightarrow>
             stripTrailingSlash iss \<noteq> stripTrailingSlash (AuthServerMetadata.issuer md)"
  shows "authServerLoop w iss urls mm =
           Exhausted (case mm of
                        Some m \<Rightarrow> Some m
                      | None \<Rightarrow> (case List.map_filter (fetchAuthServerMetadata w) urls of
                                   [] \<Rightarrow> None | md # _ \<Rightarrow> Some md))"
  using assms
proof (induction urls arbitrary: mm)
  case Nil
  then show ?case by (simp add: List.map_filter_simps split: option.splits)
next
  case (Cons u urls)
  then show ?case
    by (cases "fetchAuthServerMetadata w u"; cases mm)
       (auto simp: List.map_filter_simps Let_def)
qed

lemma authServerLoop_exhausted_none:
  "authServerLoop w iss urls mm = Exhausted None \<Longrightarrow>
     List.map_filter (fetchAuthServerMetadata w) urls = [] \<and> mm = None"
proof (induction urls arbitrary: mm)
  case Nil
  then show ?case by (simp add: List.map_filter_simps)
next
  case (Cons u urls)
  then show ?case
    by (cases "fetchAuthServerMetadata w u")
       (auto simp: List.map_filter_simps Let_def split: if_splits)
qed

text \<open>
  C6. Let \<open>urls\<close> be the candidate well-known URLs of the issuer, and let the documents
  that pass the validation of the required fields be listed in that order
  (\<open>List.map_filter (fetchAuthServerMetadata w) urls\<close>). When a discovery is attempted (no
  unexpired cache entry answers the call) and none of these documents has the requested
  issuer (both trimmed of one trailing slash), \<open>discoverAuthServerMetadata\<close> returns the
  first of them, and so does a later call for the same issuer, whether the cache answers
  it or not. Whenever a call fails, no candidate URL has yielded a document that passes
  the validation.
\<close>

theorem discoverAuthServerMetadata_mismatch_fallback:
  assumes urls: "getAuthServerMetadataUrls w iss = Inr urls"
  shows "(\<not> (case map_of (authServerMetadataCache st) iss of
                None \<Rightarrow> False | Some (d, expires) \<Rightarrow> expires > now)
          \<and> (\<forall>u\<in>set urls. \<forall>md. fetchAuthServerMetadata w u = Some md \<longrightarrow>
                stripTrailingSlash iss \<noteq> stripTrailingSlash (AuthServerMetadata.issuer md))
          \<and> List.map_filter (fetchAuthServerMetadata w) urls = first # others
          \<longrightarrow> fst (discoverAuthServerMetadata w st now iss) = Inr first
            \<and> fst (discoverAuthServerMetadata w (snd (discoverAuthServerMetadata w st now iss))
                     later iss) = Inr first)
       \<and> (fst (discoverAuthServerMetadata w st now iss) = Inl e
          \<longrightarrow> List.map_filter (fetchAuthServerMetadata w) urls = [])"
proof (intro conjI impI)
  assume a: "\<not> (case map_of (authServerMetadataCache st) iss of
                None \<Rightarrow> False | Some (d, expires) \<Rightarrow> expires > now)
          \<and> (\<forall>u\<in>set urls. \<forall>md. fetchAuthServerMetadata w u = Some md \<longrightarrow>
                stripTrailingSlash iss \<noteq> stripTrailingSlash (AuthServerMetadata.issuer md))
          \<and> List.map_filter (fetchAuthServerMetadata w) urls = first # others"
  then have loop: "authServerLoop w iss urls None = Exhausted (Some first)"
    by (simp add: authServerLoop_no_match)
  with a urls show "fst (discoverAuthServerMetadata w st now iss) = Inr first"
    by (simp add: discoverAuthServerMetadata_def)
  from a urls loop
  have cached: "map_of (authServerMetadataCache (snd (discoverAuthServerMetadata w st now iss))) iss
                  = Some (first, now + CACHE_TTL_MS)"
    by (simp add: discoverAuthServerMetadata_def update_conv')
  with urls loop
  show "fst (discoverAuthServerMetadata w (snd (discoverAuthServerMetadata w st now iss))
               later iss) = Inr first"
    by (simp add: discoverAuthServerMetadata_def [of w _ later])
next
  assume f: "fst (discoverAuthServerMetadata w st now iss) = Inl e"
  then have "authServerLoop w iss urls None = Exhausted None"
    using urls
    by (auto simp: discoverAuthServerMetadata_def Let_def
             split: if_splits authServerLoopEnd.splits option.splits)
  then show "List.map_filter (fetchAuthServerMetadata w) urls = []"
    by (simp add: authServerLoop_exhausted_none)
qed

lemma example_urls:
  "getAuthServerMetadataUrls (offlineEnv\<lparr>parseURL := exampleParseURL, fetchAuthServer := f\<rparr>)
     ''https://auth.example.com''
     = Inr [''https://auth.example.com/.well-known/oauth-authorization-server'',
            ''https://auth.example.com/.well-known/openid-configuration'']"
  by (simp add: getAuthServerMetadataUrls_def offlineEnv_def exampleParseURL_def)

lemma tenant_fetch:
  "fetchAuthServerMetadata tenantEnv ''https://auth.example.com/.well-known/oauth-authorization-server'' = None"
  "fetchAuthServerMetadata tenantEnv ''https://auth.example.com/.well-known/openid-configuration'' = Some tenantMetadata"
  by (simp_all add: fetchAuthServerMetadata_def tenantEnv_def offlineEnv_def ok_def
        tenantMetadata_def exampleAuthServer_def)

lemma unreachable_fetch: "fetchAuthServerMetadata unreachableEnv u = None"
  by (simp add: fetchAuthServerMetadata_def unreachableEnv_def offlineEnv_def)

theorem discoverAuthServerMetadata_mismatch_fallback_witness:
  "fst (discoverAuthServerMetadata tenantEnv emptyModules 0 ''https://auth.example.com'')
     = Inr tenantMetadata
   \<and> fst (discoverAuthServerMetadata unreachableEnv emptyModules 0 ''https://auth.example.com'')
       = Inl DiscoveryFailedAuthServer
   \<and> List.map_filter (fetchAuthServerMetadata unreachableEnv)
        [''https://auth.example.com/.well-known/oauth-authorization-server'',
         ''https://auth.example.com/.well-known/openid-configuration''] = []"
proof -
  let ?urls = "[''https://auth.example.com/.well-known/oauth-authorization-server'',
                ''https://auth.example.com/.well-known/openid-configuration'']"
  have u1: "getAuthServerMetadataUrls tenantEnv ''https://auth.example.com'' = Inr ?urls"
    unfolding tenantEnv_def by (rule example_urls)
  have miss: "\<not> (case map_of (authServerMetadataCache emptyModules) ''https://auth.example.com'' of
                   None \<Rightarrow> False | Some (d, expires) \<Rightarrow> expires > 0)"
    by (simp add: emptyModules_def)
  have nomatch: "\<forall>u\<in>set ?urls. \<forall>md. fetchAuthServerMetadata tenantEnv u = Some md \<longrightarrow>
          stripTrailingSlash ''https://auth.example.com''
            \<noteq> stripTrailingSlash (AuthServerMetadata.issuer md)"
    by (simp add: tenant_fetch tenantMetadata_def exampleAuthServer_def stripTrailingSlash_def)
  have valid: "List.map_filter (fetchAuthServerMetadata tenantEnv) ?urls = tenantMetadata # []"
    by (simp add: List.map_filter_simps tenant_fetch)
  have a: "fst (discoverAuthServerMetadata tenantEnv emptyModules 0 ''https://auth.example.com'')
             = Inr tenantMetadata"
    using discoverAuthServerMetadata_mismatch_fallback [OF u1, THEN conjunct1, rule_format,
            OF conjI [OF miss conjI [OF nomatch valid]]] by blast
  have u2: "getAuthServerMetadataUrls unreachableEnv ''https://auth.example.com'' = Inr ?urls"
    by (simp add: getAuthServerMetadataUrls_def unreachableEnv_def offlineEnv_def
          exampleParseURL_def)
  have fails: "fst (discoverAuthServerMetadata unreachableEnv emptyModules 0
                      ''https://auth.example.com'') = Inl DiscoveryFailedAuthServer"
    by (simp add: discoverAuthServerMetadata_def u2 emptyModules_def unreachable_fetch)
  have b: "List.map_filter (fetchAuthServerMetadata unreachableEnv) ?urls = []"
    using discoverAuthServerMetadata_mismatch_fallback [OF u2, THEN conjunct2, rule_format,
            OF fails] .
  show ?thesis using a fails b by simp
qed

section \<open>Properties of dynamic client registration\<close>

lemma fallbackSearch_none:
  "fallbackSearch pre now entries clients = (None, clients') \<Longrightarrow>
     clients' = filter (\<lambda>(k, c). \<not> (prefix pre k \<and> k \<in> fst ` set entries)) clients"
proof (induction entries arbitrary: clients)
  case Nil
  then show ?case by simp
next
  case (Cons e entries)
  obtain k c where e: "e = (k, c)" by (cases e)
  show ?case
  proof (cases "prefix pre k")
    case True
    with Cons.prems e have r: "fallbackSearch pre now entries (AList.delete k clients) = (None, clients')"
      by (simp split: if_splits)
    have "clients' = filter (\<lambda>(k', c). \<not> (prefix pre k' \<and> k' \<in> fst ` set entries))
                       (AList.delete k clients)"
      by (rule Cons.IH [OF r])
    with True e show ?thesis
      by (auto simp: AList.delete_eq intro!: filter_cong)
  next
    case False
    with Cons.prems e have r: "fallbackSearch pre now entries clients = (None, clients')"
      by simp
    have "clients' = filter (\<lambda>(k', c). \<not> (prefix pre k' \<and> k' \<in> fst ` set entries)) clients"
      by (rule Cons.IH [OF r])
    with False e show ?thesis
      by (auto intro!: filter_cong)
  qed
qed

lemma fallbackSearch_none_self:
  assumes "fallbackSearch pre now clients clients = (None, clients')"
  shows "clients' = filter (\<lambda>(k, c). \<not> prefix pre k) clients"
proof -
  have "clients' = filter (\<lambda>(k, c). \<not> (prefix pre k \<and> k \<in> fst ` set clients)) clients"
    by (rule fallbackSearch_none [OF assms])
  also have "\<dots> = filter (\<lambda>(k, c). \<not> prefix pre k) clients"
    by (rule filter_cong) (auto simp: image_iff)
  finally show ?thesis .
qed

lemma filter_prefix_delete:
  "prefix pre k \<Longrightarrow>
     filter (\<lambda>(k', c). \<not> prefix pre k') (AList.delete k clients)
       = filter (\<lambda>(k', c). \<not> prefix pre k') clients"
  by (auto simp: AList.delete_eq intro!: filter_cong)

lemma prefix_cache_key: "prefix (iss @ ''|'' @ uri) (getClientCacheKey iss uri redir)"
  by (simp add: getClientCacheKey_def)

lemma map_of_filter_prefix:
  "prefix pre k \<Longrightarrow> map_of (filter (\<lambda>(k', c). \<not> prefix pre k') clients) k = None"
  by (induction clients) auto

lemma getRegisteredClient_none:
  assumes "getRegisteredClient w st now iss uri redir = (Inr None, st1)"
  shows "st1 = st\<lparr>registeredClients :=
                   filter (\<lambda>(k, c). \<not> prefix (iss @ ''|'' @ uri) k) (registeredClients st)\<rparr>"
proof -
  let ?pre = "iss @ ''|'' @ uri"
  let ?key = "getClientCacheKey iss uri redir"
  let ?exact = "if truthy redir then map_of (registeredClients st) ?key else None"
  show ?thesis
  proof (cases "?exact \<noteq> None \<and> \<not> secretExpired (the ?exact) now")
    case True
    with assms show ?thesis
      by (auto simp: getRegisteredClient_def Let_def withDecryptedSecret_def
               split: sum.splits if_splits)
  next
    case False
    define st0 where "st0 = (if ?exact \<noteq> None
                              then st\<lparr>registeredClients := AList.delete ?key (registeredClients st)\<rparr>
                              else st)"
    from False assms obtain clients where
      f: "fallbackSearch ?pre now (registeredClients st0) (registeredClients st0) = (None, clients)"
      and s: "st1 = st0\<lparr>registeredClients := clients\<rparr>"
      unfolding getRegisteredClient_def Let_def st0_def [symmetric]
      by (auto simp: withDecryptedSecret_def split: prod.splits option.splits sum.splits if_splits)
    have "clients = filter (\<lambda>(k, c). \<not> prefix ?pre k) (registeredClients st0)"
      by (rule fallbackSearch_none_self [OF f])
    also have "\<dots> = filter (\<lambda>(k, c). \<not> prefix ?pre k) (registeredClients st)"
    proof (cases "?exact \<noteq> None")
      case True
      then have "registeredClients st0 = AList.delete ?key (registeredClients st)"
        by (simp add: st0_def)
      then show ?thesis
        by (simp only: filter_prefix_delete [OF prefix_cache_key])
    next
      case False
      then show ?thesis by (simp add: st0_def)
    qed
    finally show ?thesis using s by (simp add: st0_def)
  qed
qed


lemma fallbackSearch_none_expired:
  "fallbackSearch pre now entries clients = (None, clients') \<Longrightarrow> (k, c) \<in> set entries
     \<Longrightarrow> prefix pre k \<Longrightarrow> secretExpired c now"
  by (induction entries arbitrary: clients) (auto split: if_splits)

lemma map_of_filter_no_prefix:
  "\<not> prefix pre k \<Longrightarrow> map_of (filter (\<lambda>(k', c). \<not> prefix pre k') clients) k = map_of clients k"
  by (induction clients) auto

lemma getRegisteredClient_none_retains:
  assumes none: "getRegisteredClient w st now iss uri redir = (Inr None, st1)"
    and stored: "map_of (registeredClients st) k = Some c"
    and live: "\<not> secretExpired c now"
  shows "map_of (registeredClients st1) k = Some c"
proof -
  let ?pre = "iss @ ''|'' @ uri"
  let ?key = "getClientCacheKey iss uri redir"
  let ?exact = "if truthy redir then map_of (registeredClients st) ?key else None"
  have s: "registeredClients st1 = filter (\<lambda>(k', c). \<not> prefix ?pre k') (registeredClients st)"
    using getRegisteredClient_none [OF none] by simp
  have "\<not> prefix ?pre k"
  proof
    assume pk: "prefix ?pre k"
    have mem: "(k, c) \<in> set (registeredClients st)"
      using stored by (rule map_of_SomeD)
    show False
    proof (cases "?exact \<noteq> None \<and> \<not> secretExpired (the ?exact) now")
      case True
      with none show False
        by (auto simp: getRegisteredClient_def Let_def withDecryptedSecret_def
                 split: sum.splits if_splits)
    next
      case False
      define st0 where "st0 = (if ?exact \<noteq> None
                                then st\<lparr>registeredClients := AList.delete ?key (registeredClients st)\<rparr>
                                else st)"
      from False none obtain clients where
        f: "fallbackSearch ?pre now (registeredClients st0) (registeredClients st0) = (None, clients)"
        unfolding getRegisteredClient_def Let_def st0_def [symmetric]
        by (auto simp: withDecryptedSecret_def split: prod.splits option.splits sum.splits if_splits)
      show False
      proof (cases "?exact \<noteq> None \<and> k = ?key")
        case True
        with stored False live show False by (auto split: if_splits)
      next
        case other: False
        then have "(k, c) \<in> set (registeredClients st0)"
          using mem by (auto simp: st0_def AList.delete_eq)
        then have "secretExpired c now"
          using fallbackSearch_none_expired [OF f _ pk] by blast
        with live show False by simp
      qed
    qed
  qed
  then have "map_of (filter (\<lambda>(k', c). \<not> prefix ?pre k') (registeredClients st)) k
               = map_of (registeredClients st) k"
    by (rule map_of_filter_no_prefix)
  with stored show ?thesis
    unfolding s by simp
qed

lemma empty_lookup:
  "getRegisteredClient w emptyModules now iss uri redir = (Inr None, emptyModules)"
  by (simp add: getRegisteredClient_def emptyModules_def Let_def)

lemma api2_lookup:
  "getRegisteredClient w api2Modules 0 ''https://auth.example.com'' ''https://files.example.com''
     (Some ''http://localhost:3000/callback'') = (Inr None, api2Modules)"
  by (simp add: getRegisteredClient_def getClientCacheKey_def truthy_def api2Modules_def
        emptyModules_def Let_def)

lemma expired_lookup:
  "getRegisteredClient w expiredModules 5000 ''https://auth.example.com''
     ''https://mcp.example.com/api'' (Some ''http://localhost:3000/callback'')
     = (Inr None, emptyModules)"
  by (simp add: getRegisteredClient_def getClientCacheKey_def truthy_def expiredModules_def
        emptyModules_def Let_def secretExpired_def truthyNum_def expiredClient_def)

text \<open>
  C7. In the fallback scan of \<open>getRegisteredClient\<close> the test
  \<^verbatim>\<open>key.startsWith(`${issuer}|${resourceUri}`)\<close> also accepts the key of a resource URI
  that merely begins with the requested one: asked for the client of
  \<^verbatim>\<open>https://mcp.example.com/api\<close>, the lookup returns the client that was registered
  for \<^verbatim>\<open>https://mcp.example.com/api2\<close>.
\<close>

theorem getRegisteredClient_fallback_other_resource:
  "fst (getRegisteredClient offlineEnv api2Modules 0 ''https://auth.example.com''
          ''https://mcp.example.com/api'' (Some ''http://localhost:3000/callback''))
     = Inr (Some api2Client)
   \<and> map_of (registeredClients api2Modules)
        (getClientCacheKey ''https://auth.example.com'' ''https://mcp.example.com/api''
           (Some ''http://localhost:3000/callback'')) = None
   \<and> RegisteredClient.resourceUri api2Client \<noteq> ''https://mcp.example.com/api''"
  by (simp add: getRegisteredClient_def getClientCacheKey_def truthy_def api2Modules_def
        emptyModules_def secretExpired_def truthyNum_def api2Client_def withDecryptedSecret_def
        decryptOptional_def)

text \<open>
  C8, as the claim states it, fails twice. A registration response with status 400 has no
  \<^verbatim>\<open>client_id\<close> either, and \<open>registerClient\<close> then throws the registration-failed error.
  And when the cache holds a client whose secret has expired, the lookup that precedes
  the request evicts it, so a call that ends in the invalid-response error has changed the
  store.
\<close>

theorem registerClient_missing_client_id_counterexample:
  "fst (registerClient (registrationEnv 400 (Some anonymousClient)) emptyModules 0
          exampleAuthServer ''https://mcp.example.com/api'' ''http://localhost:3000/callback''
          ''MCP Client'' None) = Inl DcrFailed
   \<and> fst (registerClient (registrationEnv 200 (Some anonymousClient)) expiredModules 5000
          exampleAuthServer ''https://mcp.example.com/api'' ''http://localhost:3000/callback''
          ''MCP Client'' None) = Inl InvalidDcrResponse
   \<and> registeredClients expiredModules
       = [(''https://auth.example.com|https://mcp.example.com/api|http://localhost:3000/callback'',
           expiredClient)]
   \<and> registeredClients
         (snd (registerClient (registrationEnv 200 (Some anonymousClient)) expiredModules 5000
                 exampleAuthServer ''https://mcp.example.com/api''
                 ''http://localhost:3000/callback'' ''MCP Client'' None)) = []"
proof -
  have a: "registerClient (registrationEnv 400 (Some anonymousClient)) emptyModules 0
             exampleAuthServer ''https://mcp.example.com/api'' ''http://localhost:3000/callback''
             ''MCP Client'' None = (Inl DcrFailed, emptyModules)"
    by (simp add: registerClient_def exampleAuthServer_def truthy_def empty_lookup
          registrationEnv_def ok_def)
  have b: "registerClient (registrationEnv 200 (Some anonymousClient)) expiredModules 5000
             exampleAuthServer ''https://mcp.example.com/api'' ''http://localhost:3000/callback''
             ''MCP Client'' None = (Inl InvalidDcrResponse, emptyModules)"
    by (simp add: registerClient_def exampleAuthServer_def truthy_def expired_lookup
          registrationEnv_def ok_def anonymousClient_def)
  show ?thesis
    by (simp add: a b) (simp add: expiredModules_def emptyModules_def)
qed

text \<open>
  C8, amended. When \<open>registerClient\<close> has sent its registration request (the server has a
  registration endpoint and the lookup found no usable cached client), the response is
  accepted as a success and its document has no \<^verbatim>\<open>client_id\<close>, the call throws the
  invalid-response error and caches nothing. The module state it leaves is the state in
  which the request was sent: it holds no entry under the key of (issuer, resource URI,
  redirect URI), it has no entry that the initial state did not have, and it still has
  every registration of the initial state whose secret has not expired (the lookup that
  precedes the request evicts expired entries and nothing else).
\<close>

theorem registerClient_missing_client_id:
  assumes "truthy (registration_endpoint metadata)"
    and "getRegisteredClient w st now (AuthServerMetadata.issuer metadata) uri (Some redir)
           = (Inr None, st1)"
    and "fetchRegistration w (the (registration_endpoint metadata))
           (buildDcrRequest redir name scs) = Some response"
    and "ok response \<or> status response = 201"
    and "json response = Some dcrResponse"
    and "client_id dcrResponse = []"
  shows "registerClient w st now metadata uri redir name scs = (Inl InvalidDcrResponse, st1)
         \<and> map_of (registeredClients st1)
              (getClientCacheKey (AuthServerMetadata.issuer metadata) uri (Some redir)) = None
         \<and> set (registeredClients st1) \<subseteq> set (registeredClients st)
         \<and> (\<forall>k c. map_of (registeredClients st) k = Some c \<and> \<not> secretExpired c now
                \<longrightarrow> map_of (registeredClients st1) k = Some c)
         \<and> st1 = st\<lparr>registeredClients := registeredClients st1\<rparr>"
proof (intro conjI allI impI)
  show "registerClient w st now metadata uri redir name scs = (Inl InvalidDcrResponse, st1)"
    using assms by (auto simp: registerClient_def)
  have s: "st1 = st\<lparr>registeredClients :=
                      filter (\<lambda>(k, c). \<not> prefix (AuthServerMetadata.issuer metadata @ ''|'' @ uri) k)
                        (registeredClients st)\<rparr>"
    by (rule getRegisteredClient_none [OF assms(2)])
  have "map_of (filter (\<lambda>(k, c). \<not> prefix (AuthServerMetadata.issuer metadata @ ''|'' @ uri) k)
                  (registeredClients st))
          (getClientCacheKey (AuthServerMetadata.issuer metadata) uri (Some redir)) = None"
    by (rule map_of_filter_prefix [OF prefix_cache_key])
  then show "map_of (registeredClients st1)
               (getClientCacheKey (AuthServerMetadata.issuer metadata) uri (Some redir)) = None"
    by (subst s) simp
  show "set (registeredClients st1) \<subseteq> set (registeredClients st)"
    by (subst s) auto
  show "st1 = st\<lparr>registeredClients := registeredClients st1\<rparr>"
    by (subst (1 2) s) simp
next
  fix k c
  assume "map_of (registeredClients st) k = Some c \<and> \<not> secretExpired c now"
  then show "map_of (registeredClients st1) k = Some c"
    using getRegisteredClient_none_retains [OF assms(2)] by blast
qed

theorem registerClient_missing_client_id_witness:
  "registerClient (registrationEnv 200 (Some anonymousClient)) api2Modules 0 exampleAuthServer
       ''https://files.example.com'' ''http://localhost:3000/callback'' ''MCP Client'' None
     = (Inl InvalidDcrResponse, api2Modules)
   \<and> map_of (registeredClients api2Modules)
        (getClientCacheKey ''https://auth.example.com'' ''https://files.example.com''
           (Some ''http://localhost:3000/callback'')) = None
   \<and> map_of (registeredClients api2Modules)
        ''https://auth.example.com|https://mcp.example.com/api2|http://localhost:3000/callback''
       = Some api2Client"
proof -
  let ?w = "registrationEnv 200 (Some anonymousClient)"
  have e: "truthy (registration_endpoint exampleAuthServer)"
    by (simp add: exampleAuthServer_def truthy_def)
  have i: "AuthServerMetadata.issuer exampleAuthServer = ''https://auth.example.com''"
    by (simp add: exampleAuthServer_def)
  have l: "getRegisteredClient ?w api2Modules 0 (AuthServerMetadata.issuer exampleAuthServer)
             ''https://files.example.com'' (Some ''http://localhost:3000/callback'')
             = (Inr None, api2Modules)"
    unfolding i by (rule api2_lookup)
  have f: "fetchRegistration ?w (the (registration_endpoint exampleAuthServer))
             (buildDcrRequest ''http://localhost:3000/callback'' ''MCP Client'' None)
             = Some \<lparr>status = 200, json = Some anonymousClient\<rparr>"
    by (simp add: registrationEnv_def)
  have s: "ok \<lparr>status = 200, json = Some anonymousClient\<rparr>
           \<or> status \<lparr>status = 200, json = Some anonymousClient\<rparr> = 201"
    by (simp add: ok_def)
  have j: "json \<lparr>status = 200, json = Some anonymousClient\<rparr> = Some anonymousClient"
    by simp
  have c: "client_id anonymousClient = []"
    by (simp add: anonymousClient_def)
  have stored: "map_of (registeredClients api2Modules)
                  ''https://auth.example.com|https://mcp.example.com/api2|http://localhost:3000/callback''
                  = Some api2Client \<and> \<not> secretExpired api2Client 0"
    by (simp add: api2Modules_def emptyModules_def secretExpired_def api2Client_def truthyNum_def)
  note t = registerClient_missing_client_id [OF e l f s j c]
  have kept: "map_of (registeredClients api2Modules)
                ''https://auth.example.com|https://mcp.example.com/api2|http://localhost:3000/callback''
                = Some api2Client"
    using t [THEN conjunct2, THEN conjunct2, THEN conjunct2, THEN conjunct1, rule_format,
            OF stored] .
  show ?thesis
    using t kept unfolding i by blast
qed

text \<open>
  C9, as the claim states it, fails: a registration response with status 202 is treated
  as a success, and the client of its document is returned and cached.
\<close>

theorem registerClient_accepts_202:
  "fst (registerClient (registrationEnv 202 (Some issuedClient)) emptyModules 0 exampleAuthServer
          ''https://mcp.example.com/api'' ''http://localhost:3000/callback'' ''MCP Client'' None)
     = Inr \<lparr> RegisteredClient.clientId = ''client-1'',
             RegisteredClient.clientSecret = None,
             RegisteredClient.issuer = ''https://auth.example.com'',
             RegisteredClient.resourceUri = ''https://mcp.example.com/api'',
             registeredAt = 0,
             clientSecretExpiresAt = None \<rparr>"
  by (simp add: registerClient_def exampleAuthServer_def truthy_def empty_lookup
        registrationEnv_def ok_def issuedClient_def truthyNum_def storeRegisteredClient_def
        encryptOptional_def Let_def)

text \<open>
  C9, amended. Once \<open>registerClient\<close> has sent its registration request and received a
  response, it fails with the registration-failed error exactly when the status lies
  outside 200 to 299 (\<^verbatim>\<open>response.ok\<close>, which covers 201); for a status inside that range
  it goes on to the document, and a document with a \<^verbatim>\<open>client_id\<close> and a representable
  expiry is stored under the key of (issuer, resource URI, redirect URI) and returned.
\<close>

theorem registerClient_status:
  assumes "truthy (registration_endpoint metadata)"
    and "getRegisteredClient w st now (AuthServerMetadata.issuer metadata) uri (Some redir)
           = (Inr None, st1)"
    and "fetchRegistration w (the (registration_endpoint metadata))
           (buildDcrRequest redir name scs) = Some response"
  shows "((fst (registerClient w st now metadata uri redir name scs) = Inl DcrFailed)
            = (\<not> (200 \<le> status response \<and> status response \<le> 299)))
         \<and> (200 \<le> status response \<and> status response \<le> 299
              \<and> json response = Some dcrResponse \<and> client_id dcrResponse \<noteq> []
              \<and> (truthyNum (client_secret_expires_at dcrResponse)
                    \<longrightarrow> validTimeValue (the (client_secret_expires_at dcrResponse) * 1000))
            \<longrightarrow> registerClient w st now metadata uri redir name scs
                  = (Inr (fst (storeRegisteredClient w st1 now (AuthServerMetadata.issuer metadata)
                                 uri redir dcrResponse)),
                     snd (storeRegisteredClient w st1 now (AuthServerMetadata.issuer metadata)
                            uri redir dcrResponse))
                \<and> map_of (registeredClients
                             (snd (registerClient w st now metadata uri redir name scs)))
                     (getClientCacheKey (AuthServerMetadata.issuer metadata) uri (Some redir))
                   \<noteq> None)"
  using assms
  by (auto simp: registerClient_def ok_def storeRegisteredClient_def Let_def update_conv'
           split: option.splits prod.splits)

theorem registerClient_status_witness:
  "fst (registerClient (registrationEnv 404 None) emptyModules 0 exampleAuthServer
          ''https://mcp.example.com/api'' ''http://localhost:3000/callback'' ''MCP Client'' None)
     = Inl DcrFailed
   \<and> map_of (registeredClients
        (snd (registerClient (registrationEnv 202 (Some issuedClient)) emptyModules 0
                exampleAuthServer ''https://mcp.example.com/api''
                ''http://localhost:3000/callback'' ''MCP Client'' None)))
        (getClientCacheKey ''https://auth.example.com'' ''https://mcp.example.com/api''
           (Some ''http://localhost:3000/callback'')) \<noteq> None"
proof -
  have e: "truthy (registration_endpoint exampleAuthServer)"
    by (simp add: exampleAuthServer_def truthy_def)
  have i: "AuthServerMetadata.issuer exampleAuthServer = ''https://auth.example.com''"
    by (simp add: exampleAuthServer_def)
  have l: "getRegisteredClient w emptyModules 0 (AuthServerMetadata.issuer exampleAuthServer)
             ''https://mcp.example.com/api'' (Some ''http://localhost:3000/callback'')
             = (Inr None, emptyModules)" for w
    by (rule empty_lookup)
  have f1: "fetchRegistration (registrationEnv 404 None)
              (the (registration_endpoint exampleAuthServer))
              (buildDcrRequest ''http://localhost:3000/callback'' ''MCP Client'' None)
              = Some \<lparr>status = 404, json = None\<rparr>"
    by (simp add: registrationEnv_def)
  have f2: "fetchRegistration (registrationEnv 202 (Some issuedClient))
              (the (registration_endpoint exampleAuthServer))
              (buildDcrRequest ''http://localhost:3000/callback'' ''MCP Client'' None)
              = Some \<lparr>status = 202, json = Some issuedClient\<rparr>"
    by (simp add: registrationEnv_def)
  have a: "fst (registerClient (registrationEnv 404 None) emptyModules 0 exampleAuthServer
                  ''https://mcp.example.com/api'' ''http://localhost:3000/callback''
                  ''MCP Client'' None) = Inl DcrFailed"
    using registerClient_status [OF e l f1, THEN conjunct1] by simp
  have h: "200 \<le> status \<lparr>status = 202, json = Some issuedClient\<rparr>
           \<and> status \<lparr>status = 202, json = Some issuedClient\<rparr> \<le> 299
           \<and> json \<lparr>status = 202, json = Some issuedClient\<rparr> = Some issuedClient
           \<and> client_id issuedClient \<noteq> []
           \<and> (truthyNum (client_secret_expires_at issuedClient)
                 \<longrightarrow> validTimeValue (the (client_secret_expires_at issuedClient) * 1000))"
    by (simp add: issuedClient_def truthyNum_def)
  have b: "map_of (registeredClients
             (snd (registerClient (registrationEnv 202 (Some issuedClient)) emptyModules 0
                     exampleAuthServer ''https://mcp.example.com/api''
                     ''http://localhost:3000/callback'' ''MCP Client'' None)))
             (getClientCacheKey (AuthServerMetadata.issuer exampleAuthServer)
                ''https://mcp.example.com/api'' (Some ''http://localhost:3000/callback''))
             \<noteq> None"
    using registerClient_status [OF e l f2, THEN conjunct2, rule_format, OF h] by blast
  show ?thesis using a b unfolding i by blast
qed

section \<open>Properties of the authorization flow\<close>

lemma pendingStates_discoverAuthServerMetadata:
  "discoverAuthServerMetadata w st now iss = (r, st') \<Longrightarrow> pendingStates st' = pendingStates st"
  by (auto simp: discoverAuthServerMetadata_def Let_def
           split: sum.splits authServerLoopEnd.splits option.splits if_splits)

lemma pendingStates_getRegisteredClient:
  "getRegisteredClient w st now iss uri redir = (r, st') \<Longrightarrow> pendingStates st' = pendingStates st"
  by (auto simp: getRegisteredClient_def Let_def split: prod.splits option.splits if_splits)

lemma pendingStates_registerClient:
  "registerClient w st now metadata uri redir name scs = (r, st')
     \<Longrightarrow> pendingStates st' = pendingStates st"
  by (auto simp: registerClient_def storeRegisteredClient_def Let_def
           split: prod.splits sum.splits option.splits if_splits
           dest!: pendingStates_getRegisteredClient)

lemma pendingStates_getOrRegisterClient:
  "getOrRegisterClient w st now authServer uri config = (r, st')
     \<Longrightarrow> pendingStates st' = pendingStates st"
  by (auto simp: getOrRegisterClient_def
           split: prod.splits sum.splits option.splits if_splits
           dest!: pendingStates_getRegisteredClient pendingStates_registerClient)

lemma pendingStates_storeTokens:
  "pendingStates (storeTokens w st uri tokens iss) = pendingStates st"
  by (simp add: storeTokens_def)

lemma pendingStates_saveStatesToFile:
  "pendingStates (saveStatesToFile w st) = pendingStates st"
  by (simp add: saveStatesToFile_def)

lemma pendingStates_handleAuthCallback:
  "pendingStates (snd (handleAuthCallback w st now code s config))
     = AList.delete s (pendingStates st)"
proof (cases "map_of (pendingStates st) s")
  case None
  then have "s \<notin> fst ` set (pendingStates st)"
    by (simp add: map_of_eq_None_iff)
  then have "AList.delete s (pendingStates st) = pendingStates st"
    by (simp add: delete_id)
  with None show ?thesis by (simp add: handleAuthCallback_def)
next
  case (Some oauthState)
  let ?st0 = "saveStatesToFile w (st\<lparr>pendingStates := AList.delete s (pendingStates st)\<rparr>)"
  have p0: "pendingStates ?st0 = AList.delete s (pendingStates st)"
    by (simp add: pendingStates_saveStatesToFile)
  show ?thesis
    using Some p0
    by (auto simp: handleAuthCallback_def Let_def pendingStates_storeTokens
             split: prod.splits sum.splits
             dest!: pendingStates_discoverAuthServerMetadata pendingStates_getOrRegisterClient)
qed


lemma discoverAuthServerMetadata_errors:
  "discoverAuthServerMetadata w st now iss = (Inl e, st')
     \<Longrightarrow> e = InvalidURL \<or> e = DiscoveryFailedAuthServer"
  by (auto simp: discoverAuthServerMetadata_def getAuthServerMetadataUrls_def Let_def
           split: sum.splits authServerLoopEnd.splits option.splits if_splits)

lemma decryptOptional_errors: "decryptOptional w k v = Inl e \<Longrightarrow> e = DecipherFailed"
  by (auto simp: decryptOptional_def decrypt_def split: if_splits sum.splits option.splits list.splits)

lemma getRegisteredClient_errors:
  "getRegisteredClient w st now iss uri redir = (Inl e, st') \<Longrightarrow> e = DecipherFailed"
  by (auto simp: getRegisteredClient_def withDecryptedSecret_def Let_def
           split: prod.splits option.splits if_splits sum.splits
           dest: decryptOptional_errors)

lemma registerClient_errors:
  "registerClient w st now metadata uri redir name scs = (Inl e, st')
     \<Longrightarrow> e \<in> {DcrUnsupported, DecipherFailed, FetchFailed, DcrFailed, JsonRejected,
              InvalidDcrResponse, InvalidTimeValue}"
  by (auto simp: registerClient_def Let_def
           split: prod.splits sum.splits option.splits if_splits
           dest: getRegisteredClient_errors)

lemma getOrRegisterClient_errors:
  "getOrRegisterClient w st now authServer uri config = (Inl e, st')
     \<Longrightarrow> e \<in> {DcrUnsupported, DecipherFailed, FetchFailed, DcrFailed, JsonRejected,
              InvalidDcrResponse, InvalidTimeValue, NoClientCredentials}"
  by (auto simp: getOrRegisterClient_def
           split: prod.splits sum.splits option.splits if_splits
           dest: getRegisteredClient_errors registerClient_errors)

lemma exchangeCodeForTokens_errors:
  "exchangeCodeForTokens w now metadata code redir verifier cid secret uri = Inl e
     \<Longrightarrow> e \<in> {FetchFailed, TokenExchangeFailed, JsonRejected, MissingAccessToken,
              InvalidTimeValue}"
  by (auto simp: exchangeCodeForTokens_def Let_def split: option.splits if_splits)

lemma handleAuthCallback_expired_iff:
  assumes "map_of (pendingStates st) s = Some oauthState"
  shows "(fst (handleAuthCallback w st now code s config) = Inl StateExpired)
           = (now - createdAt oauthState > STATE_TTL_MS)"
  using assms
  by (auto simp: handleAuthCallback_def Let_def
           split: prod.splits sum.splits
           dest: discoverAuthServerMetadata_errors getOrRegisterClient_errors
                 exchangeCodeForTokens_errors)

lemma handleAuthCallback_known_state:
  assumes "map_of (pendingStates st) s = Some oauthState"
  shows "fst (handleAuthCallback w st now code s config) \<noteq> Inl InvalidOrExpiredState"
  using assms
  by (auto simp: handleAuthCallback_def Let_def
           split: prod.splits sum.splits
           dest: discoverAuthServerMetadata_errors getOrRegisterClient_errors
                 exchangeCodeForTokens_errors)

lemma handleAuthCallback_proceeds:
  assumes "map_of (pendingStates st) s = Some oauthState"
    and "\<not> now - createdAt oauthState > STATE_TTL_MS"
  shows "fst (handleAuthCallback w st now code s config)
           = (case discoverAuthServerMetadata w
                     (saveStatesToFile w
                        (st\<lparr>pendingStates := AList.delete s (pendingStates st)\<rparr>))
                     now (OAuthState.issuer oauthState) of
                (Inl e, st1) \<Rightarrow> Inl e
              | (Inr authServer, st1) \<Rightarrow>
                  (case getOrRegisterClient w st1 now authServer
                          (OAuthState.resourceUri oauthState) config of
                     (Inl e, st2) \<Rightarrow> Inl e
                   | (Inr (cid, secret), st2) \<Rightarrow>
                       exchangeCodeForTokens w now authServer code
                         (OAuthState.redirectUri oauthState) (codeVerifier oauthState) cid secret
                         (Some (OAuthState.resourceUri oauthState))))"
  using assms
  by (auto simp: handleAuthCallback_def Let_def split: sum.splits prod.splits)

lemma initiateAuthFlow_stores_state:
  assumes "initiateAuthFlow w st now serverUrl config rmu challenged = (Inr (u, s), st')"
  shows "\<exists>oauthState. map_of (pendingStates st') s = Some oauthState \<and> createdAt oauthState = now"
  using assms
  by (auto simp: initiateAuthFlow_def Let_def saveStatesToFile_def update_conv'
           split: sum.splits prod.splits if_splits)

lemma set_objectEntries: "set (objectEntries entries) = set entries"
  by (auto simp: objectEntries_def)

lemma statesFile_discoverAuthServerMetadata:
  "discoverAuthServerMetadata w st now iss = (r, st') \<Longrightarrow> statesFile st' = statesFile st"
  by (auto simp: discoverAuthServerMetadata_def Let_def
           split: sum.splits authServerLoopEnd.splits option.splits if_splits)

lemma statesFile_getRegisteredClient:
  "getRegisteredClient w st now iss uri redir = (r, st') \<Longrightarrow> statesFile st' = statesFile st"
  by (auto simp: getRegisteredClient_def Let_def split: prod.splits option.splits if_splits)

lemma statesFile_registerClient:
  "registerClient w st now metadata uri redir name scs = (r, st')
     \<Longrightarrow> statesFile st' = statesFile st"
  by (auto simp: registerClient_def storeRegisteredClient_def Let_def
           split: prod.splits sum.splits option.splits if_splits
           dest!: statesFile_getRegisteredClient)

lemma statesFile_getOrRegisterClient:
  "getOrRegisterClient w st now authServer uri config = (r, st')
     \<Longrightarrow> statesFile st' = statesFile st"
  by (auto simp: getOrRegisterClient_def
           split: prod.splits sum.splits option.splits if_splits
           dest!: statesFile_getRegisteredClient statesFile_registerClient)

lemma statesFile_storeTokens:
  "statesFile (storeTokens w st uri tokens iss) = statesFile st"
  by (simp add: storeTokens_def)

lemma statesFile_handleAuthCallback:
  assumes "map_of (pendingStates st) s = Some oauthState"
  shows "statesFile (snd (handleAuthCallback w st now code s config))
           = (if writeFileOk w then Some (objectEntries (AList.delete s (pendingStates st)))
              else statesFile st)"
proof -
  let ?st0 = "saveStatesToFile w (st\<lparr>pendingStates := AList.delete s (pendingStates st)\<rparr>)"
  have f0: "statesFile ?st0
              = (if writeFileOk w then Some (objectEntries (AList.delete s (pendingStates st)))
                 else statesFile st)"
    by (simp add: saveStatesToFile_def)
  show ?thesis
    using assms f0
    by (auto simp: handleAuthCallback_def Let_def statesFile_storeTokens
             split: prod.splits sum.splits
             dest!: statesFile_discoverAuthServerMetadata statesFile_getOrRegisterClient)
qed

lemma map_of_load_fold:
  "s \<notin> fst ` set states \<Longrightarrow>
     map_of (fold (\<lambda>(k, oauthState) pending.
                     if now - createdAt oauthState \<le> STATE_TTL_MS
                     then AList.update k oauthState pending else pending)
                states pending0) s
       = map_of pending0 s"
  by (induction states arbitrary: pending0) (auto simp: update_conv')

lemma restartProcess_absent:
  assumes "statesFile st = Some states" and "s \<notin> fst ` set states"
  shows "map_of (pendingStates (restartProcess st now)) s = None"
  using assms by (simp add: restartProcess_def loadStatesFromFile_def map_of_load_fold)

lemma handleAuthCallback_unknown:
  "map_of (pendingStates st) s = None
     \<Longrightarrow> handleAuthCallback w st now code s config = (Inl InvalidOrExpiredState, st)"
  by (simp add: handleAuthCallback_def)

lemma handleAuthCallback_durable:
  assumes "map_of (pendingStates st) s = Some oauthState" and "writeFileOk w"
  shows "map_of (pendingStates
                   (restartProcess (snd (handleAuthCallback w st now code s config)) later)) s
           = None"
proof -
  have f: "statesFile (snd (handleAuthCallback w st now code s config))
             = Some (objectEntries (AList.delete s (pendingStates st)))"
    using statesFile_handleAuthCallback [OF assms(1)] assms(2) by simp
  have "s \<notin> fst ` set (objectEntries (AList.delete s (pendingStates st)))"
    by (auto simp: set_objectEntries AList.delete_eq)
  with f show ?thesis by (rule restartProcess_absent)
qed

lemma example_canonical:
  "getCanonicalResourceUri unreachableEnv ''https://mcp.example.com/api''
     = Inr ''https://mcp.example.com/api''"
  by (simp add: getCanonicalResourceUri_def unreachableEnv_def offlineEnv_def exampleParseURL_def
        stripTrailingSlash_def)

lemma example_metadata:
  "getMetadata unreachableEnv cachedModules now ''https://mcp.example.com/api'' None
     = (Inr (exampleProtectedResource, exampleAuthServer), cachedModules)"
  by (simp add: getMetadata_def example_canonical cachedModules_def emptyModules_def)

lemma example_cleanup: "cleanupExpiredStates w cachedModules now = cachedModules"
  by (simp add: cleanupExpiredStates_def cachedModules_def emptyModules_def)

lemma example_client:
  "getOrRegisterClient w st now authServer uri exampleConfig = (Inr (''client-1'', None), st)"
  by (simp add: getOrRegisterClient_def exampleConfig_def truthy_def)

lemma example_config:
  "OAuthConfig.scopes exampleConfig = Some [''read'']"
  "OAuthConfig.redirectUri exampleConfig = ''http://localhost:3000/callback''"
  by (simp_all add: exampleConfig_def)

lemma example_endpoint:
  "parseURL unreachableEnv (authorization_endpoint exampleAuthServer)
     = Some \<lparr> protocol = ''https:'', host = ''auth.example.com'', port = [],
              origin = ''https://auth.example.com'', pathname = ''/authorize'',
              searchParams = [] \<rparr>"
  by (simp add: unreachableEnv_def offlineEnv_def exampleParseURL_def exampleAuthServer_def)

lemma example_flow:
  "\<exists>u st. initiateAuthFlow unreachableEnv cachedModules now ''https://mcp.example.com/api''
             exampleConfig None challenged
           = (Inr (u, generateState unreachableEnv 32), st)"
  by (simp add: initiateAuthFlow_def example_cleanup example_canonical example_metadata
        example_client generatePkcePair_def generateCodeVerifier_def Let_def
        buildAuthorizationUrl_def example_endpoint)

lemma objectEntries_single: "objectEntries [entry] = [entry]"
  by (simp add: objectEntries_def)

lemma example_flow_state:
  "\<exists>u oauthState.
      initiateAuthFlow unreachableEnv cachedModules 0 ''https://mcp.example.com/api''
        exampleConfig None None
      = (Inr (u, generateState unreachableEnv 32),
         cachedModules\<lparr> pendingStates := [(generateState unreachableEnv 32, oauthState)],
                         statesFile := Some [(generateState unreachableEnv 32, oauthState)] \<rparr>)
      \<and> createdAt oauthState = 0
      \<and> OAuthState.issuer oauthState = ''https://auth.example.com''"
  by (simp add: initiateAuthFlow_def example_cleanup example_canonical example_metadata
        example_client generatePkcePair_def generateCodeVerifier_def Let_def
        buildAuthorizationUrl_def example_endpoint saveStatesToFile_def objectEntries_single)
     (simp add: cachedModules_def emptyModules_def unreachableEnv_def offlineEnv_def
        exampleAuthServer_def objectEntries_single)

lemma serving_fetch:
  assumes "w = servingEnv \<or> w = failingDiskEnv"
  shows "getAuthServerMetadataUrls w ''https://auth.example.com''
           = Inr [''https://auth.example.com/.well-known/oauth-authorization-server'',
                  ''https://auth.example.com/.well-known/openid-configuration'']"
    and "fetchAuthServerMetadata w
           ''https://auth.example.com/.well-known/oauth-authorization-server''
           = Some exampleAuthServer"
  using assms
  by (auto simp: getAuthServerMetadataUrls_def fetchAuthServerMetadata_def servingEnv_def
        failingDiskEnv_def offlineEnv_def exampleParseURL_def ok_def exampleAuthServer_def)

lemma serving_discover:
  assumes "w = servingEnv \<or> w = failingDiskEnv" and "authServerMetadataCache st = []"
  shows "fst (discoverAuthServerMetadata w st now ''https://auth.example.com'')
           = Inr exampleAuthServer"
proof -
  have "stripTrailingSlash ''https://auth.example.com''
          = stripTrailingSlash (AuthServerMetadata.issuer exampleAuthServer)"
    by (simp add: exampleAuthServer_def)
  then show ?thesis
    using assms(2) by (simp add: discoverAuthServerMetadata_def serving_fetch [OF assms(1)])
qed

lemma serving_exchange:
  assumes "w = servingEnv \<or> w = failingDiskEnv" and "validTimeValue (now + 3600 * 1000)"
  shows "exchangeCodeForTokens w now exampleAuthServer code redir verifier cid secret uri
           = Inr \<lparr> accessToken = ''access-2'', refreshToken = None, tokenType = ''Bearer'',
                   expiresAt = now + 3600 * 1000, scope = None \<rparr>"
  using assms
  by (auto simp: exchangeCodeForTokens_def servingEnv_def failingDiskEnv_def offlineEnv_def
        issuedTokens_def truthyNum_def ok_def Let_def)

lemma serving_callback:
  assumes env: "w = servingEnv \<or> w = failingDiskEnv"
    and pending: "map_of (pendingStates st) s = Some oauthState"
    and issuer: "OAuthState.issuer oauthState = ''https://auth.example.com''"
    and fresh: "\<not> now - createdAt oauthState > STATE_TTL_MS"
    and cache: "authServerMetadataCache st = []"
    and time: "validTimeValue (now + 3600 * 1000)"
  shows "fst (handleAuthCallback w st now code s exampleConfig)
           = Inr \<lparr> accessToken = ''access-2'', refreshToken = None, tokenType = ''Bearer'',
                   expiresAt = now + 3600 * 1000, scope = None \<rparr>"
proof -
  let ?st0 = "saveStatesToFile w (st\<lparr>pendingStates := AList.delete s (pendingStates st)\<rparr>)"
  have "authServerMetadataCache ?st0 = []"
    using cache by (simp add: saveStatesToFile_def)
  then have "fst (discoverAuthServerMetadata w ?st0 now ''https://auth.example.com'')
               = Inr exampleAuthServer"
    by (rule serving_discover [OF env])
  then obtain st1 where
    d: "discoverAuthServerMetadata w ?st0 now ''https://auth.example.com''
          = (Inr exampleAuthServer, st1)"
    by (cases "discoverAuthServerMetadata w ?st0 now ''https://auth.example.com''") simp
  show ?thesis
    unfolding handleAuthCallback_proceeds [OF pending fresh] issuer d
    by (simp add: example_client serving_exchange [OF env time])
qed

text \<open>
  C2, as the claim states it, fails. The state of a pending authorization is also kept in
  the state file. When the first callback cannot rewrite that file, the state value stays
  in it; a restart of the process loads it again, and a second callback with the same
  state value is accepted and exchanges the code for tokens once more.
\<close>

theorem handleAuthCallback_single_use_counterexample:
  "fst (handleAuthCallback failingDiskEnv
          (snd (initiateAuthFlow unreachableEnv cachedModules 0 ''https://mcp.example.com/api''
                  exampleConfig None None))
          1000 ''code-1'' (generateState unreachableEnv 32) exampleConfig)
     = Inr \<lparr> accessToken = ''access-2'', refreshToken = None, tokenType = ''Bearer'',
             expiresAt = 1000 + 3600 * 1000, scope = None \<rparr>
   \<and> fst (handleAuthCallback servingEnv
          (restartProcess
             (snd (handleAuthCallback failingDiskEnv
                     (snd (initiateAuthFlow unreachableEnv cachedModules 0
                             ''https://mcp.example.com/api'' exampleConfig None None))
                     1000 ''code-1'' (generateState unreachableEnv 32) exampleConfig))
             2000)
          3000 ''code-1'' (generateState unreachableEnv 32) exampleConfig)
       = Inr \<lparr> accessToken = ''access-2'', refreshToken = None, tokenType = ''Bearer'',
               expiresAt = 3000 + 3600 * 1000, scope = None \<rparr>"
proof -
  let ?s = "generateState unreachableEnv 32"
  obtain u oauthState where
    r: "initiateAuthFlow unreachableEnv cachedModules 0 ''https://mcp.example.com/api''
          exampleConfig None None
        = (Inr (u, ?s), cachedModules\<lparr> pendingStates := [(?s, oauthState)],
                                        statesFile := Some [(?s, oauthState)] \<rparr>)"
    and c: "createdAt oauthState = 0"
    and i: "OAuthState.issuer oauthState = ''https://auth.example.com''"
    using example_flow_state by blast
  let ?st = "cachedModules\<lparr> pendingStates := [(?s, oauthState)],
                             statesFile := Some [(?s, oauthState)] \<rparr>"
  let ?first = "handleAuthCallback failingDiskEnv ?st 1000 ''code-1'' ?s exampleConfig"
  have p: "map_of (pendingStates ?st) ?s = Some oauthState"
    by simp
  have cache: "authServerMetadataCache ?st = []"
    by (simp add: cachedModules_def emptyModules_def)
  have a: "fst ?first
             = Inr \<lparr> accessToken = ''access-2'', refreshToken = None, tokenType = ''Bearer'',
                     expiresAt = 1000 + 3600 * 1000, scope = None \<rparr>"
    by (rule serving_callback [OF _ p i _ cache])
       (simp_all add: c STATE_TTL_MS_def validTimeValue_def)
  have "statesFile (snd ?first) = statesFile ?st"
    using statesFile_handleAuthCallback [OF p, of failingDiskEnv]
    by (simp add: failingDiskEnv_def)
  then have kept: "statesFile (snd ?first) = Some [(?s, oauthState)]"
    by simp
  let ?st' = "restartProcess (snd ?first) 2000"
  have p': "map_of (pendingStates ?st') ?s = Some oauthState"
    by (simp add: restartProcess_def loadStatesFromFile_def kept c STATE_TTL_MS_def)
  have cache': "authServerMetadataCache ?st' = []"
    by (simp add: restartProcess_def loadStatesFromFile_def kept)
  have b: "fst (handleAuthCallback servingEnv ?st' 3000 ''code-1'' ?s exampleConfig)
             = Inr \<lparr> accessToken = ''access-2'', refreshToken = None, tokenType = ''Bearer'',
                     expiresAt = 3000 + 3600 * 1000, scope = None \<rparr>"
    by (rule serving_callback [OF _ p' i _ cache'])
       (simp_all add: c STATE_TTL_MS_def validTimeValue_def)
  show ?thesis
    using a b by (simp add: r)
qed

text \<open>
  C2, amended. A state value that \<open>initiateAuthFlow\<close> returns is pending in the state it
  leaves. Within one process, a callback for a pending state value is not rejected as
  unknown, it removes the value from the pending states whatever its outcome, and every
  further callback with the same value fails with the invalid-or-expired-state error and
  changes nothing. When that first callback can rewrite the state file, the removal is
  durable too: after a restart of the process the value is not pending, and a callback
  with it fails with the same error. When the file cannot be written, the callback leaves
  the file as it was.
\<close>

theorem handleAuthCallback_single_use:
  "(initiateAuthFlow w0 st0 now0 serverUrl config0 rmu challenged = (Inr (u, s), st)
      \<longrightarrow> map_of (pendingStates st) s \<noteq> None)
   \<and> (map_of (pendingStates st) s \<noteq> None
      \<longrightarrow> fst (handleAuthCallback w st now code s config) \<noteq> Inl InvalidOrExpiredState
        \<and> map_of (pendingStates (snd (handleAuthCallback w st now code s config))) s = None
        \<and> handleAuthCallback w' (snd (handleAuthCallback w st now code s config)) now' code' s
             config'
           = (Inl InvalidOrExpiredState, snd (handleAuthCallback w st now code s config)))
   \<and> (map_of (pendingStates st) s \<noteq> None \<and> writeFileOk w
      \<longrightarrow> map_of (pendingStates
                    (restartProcess (snd (handleAuthCallback w st now code s config)) later)) s
            = None
        \<and> handleAuthCallback w'
             (restartProcess (snd (handleAuthCallback w st now code s config)) later) now' code'
             s config'
           = (Inl InvalidOrExpiredState,
              restartProcess (snd (handleAuthCallback w st now code s config)) later))
   \<and> (map_of (pendingStates st) s \<noteq> None \<and> \<not> writeFileOk w
      \<longrightarrow> statesFile (snd (handleAuthCallback w st now code s config)) = statesFile st)"
proof (intro conjI impI)
  assume "initiateAuthFlow w0 st0 now0 serverUrl config0 rmu challenged = (Inr (u, s), st)"
  then show "map_of (pendingStates st) s \<noteq> None"
    by (auto dest: initiateAuthFlow_stores_state)
next
  assume "map_of (pendingStates st) s \<noteq> None"
  then show "fst (handleAuthCallback w st now code s config) \<noteq> Inl InvalidOrExpiredState"
    by (auto simp: handleAuthCallback_known_state)
next
  show gone: "map_of (pendingStates (snd (handleAuthCallback w st now code s config))) s = None"
    by (simp add: pendingStates_handleAuthCallback delete_conv')
  then show "handleAuthCallback w' (snd (handleAuthCallback w st now code s config)) now' code' s
               config'
             = (Inl InvalidOrExpiredState, snd (handleAuthCallback w st now code s config))"
    by (rule handleAuthCallback_unknown)
next
  assume a: "map_of (pendingStates st) s \<noteq> None \<and> writeFileOk w"
  then show durable:
    "map_of (pendingStates
               (restartProcess (snd (handleAuthCallback w st now code s config)) later)) s
       = None"
    by (auto intro: handleAuthCallback_durable)
  then show "handleAuthCallback w'
               (restartProcess (snd (handleAuthCallback w st now code s config)) later) now'
               code' s config'
             = (Inl InvalidOrExpiredState,
                restartProcess (snd (handleAuthCallback w st now code s config)) later)"
    by (rule handleAuthCallback_unknown)
next
  assume "map_of (pendingStates st) s \<noteq> None \<and> \<not> writeFileOk w"
  then show "statesFile (snd (handleAuthCallback w st now code s config)) = statesFile st"
    by (auto simp: statesFile_handleAuthCallback)
qed

theorem handleAuthCallback_single_use_witness:
  "map_of (pendingStates
      (snd (initiateAuthFlow unreachableEnv cachedModules 0 ''https://mcp.example.com/api''
              exampleConfig None None)))
      (generateState unreachableEnv 32) \<noteq> None
   \<and> map_of (pendingStates
        (snd (handleAuthCallback offlineEnv
                (snd (initiateAuthFlow unreachableEnv cachedModules 0
                        ''https://mcp.example.com/api'' exampleConfig None None))
                1000 ''code-1'' (generateState unreachableEnv 32) exampleConfig)))
        (generateState unreachableEnv 32) = None
   \<and> fst (handleAuthCallback offlineEnv
        (snd (handleAuthCallback offlineEnv
                (snd (initiateAuthFlow unreachableEnv cachedModules 0
                        ''https://mcp.example.com/api'' exampleConfig None None))
                1000 ''code-1'' (generateState unreachableEnv 32) exampleConfig))
        2000 ''code-1'' (generateState unreachableEnv 32) exampleConfig)
       = Inl InvalidOrExpiredState
   \<and> fst (handleAuthCallback servingEnv
        (restartProcess
           (snd (handleAuthCallback offlineEnv
                   (snd (initiateAuthFlow unreachableEnv cachedModules 0
                           ''https://mcp.example.com/api'' exampleConfig None None))
                   1000 ''code-1'' (generateState unreachableEnv 32) exampleConfig))
           2000)
        3000 ''code-1'' (generateState unreachableEnv 32) exampleConfig)
       = Inl InvalidOrExpiredState
   \<and> statesFile
        (snd (handleAuthCallback failingDiskEnv
                (snd (initiateAuthFlow unreachableEnv cachedModules 0
                        ''https://mcp.example.com/api'' exampleConfig None None))
                1000 ''code-1'' (generateState unreachableEnv 32) exampleConfig))
       = statesFile
           (snd (initiateAuthFlow unreachableEnv cachedModules 0 ''https://mcp.example.com/api''
                   exampleConfig None None))"
proof -
  let ?s = "generateState unreachableEnv 32"
  obtain u st where r: "initiateAuthFlow unreachableEnv cachedModules 0
                          ''https://mcp.example.com/api'' exampleConfig None None
                        = (Inr (u, ?s), st)"
    using example_flow by blast
  note t = handleAuthCallback_single_use
  have p: "map_of (pendingStates st) ?s \<noteq> None"
    using t [THEN conjunct1, rule_format, OF r] .
  have c: "fst (handleAuthCallback offlineEnv st 1000 ''code-1'' ?s exampleConfig)
             \<noteq> Inl InvalidOrExpiredState
           \<and> map_of (pendingStates (snd (handleAuthCallback offlineEnv st 1000 ''code-1'' ?s
                                            exampleConfig))) ?s = None
           \<and> handleAuthCallback offlineEnv
                (snd (handleAuthCallback offlineEnv st 1000 ''code-1'' ?s exampleConfig))
                2000 ''code-1'' ?s exampleConfig
              = (Inl InvalidOrExpiredState,
                 snd (handleAuthCallback offlineEnv st 1000 ''code-1'' ?s exampleConfig))"
    using t [THEN conjunct2, THEN conjunct1, rule_format, OF p] .
  have ok: "map_of (pendingStates st) ?s \<noteq> None \<and> writeFileOk offlineEnv"
    using p by (simp add: offlineEnv_def)
  have d: "handleAuthCallback servingEnv
             (restartProcess (snd (handleAuthCallback offlineEnv st 1000 ''code-1'' ?s
                                     exampleConfig)) 2000)
             3000 ''code-1'' ?s exampleConfig
           = (Inl InvalidOrExpiredState,
              restartProcess (snd (handleAuthCallback offlineEnv st 1000 ''code-1'' ?s
                                     exampleConfig)) 2000)"
    using t [THEN conjunct2, THEN conjunct2, THEN conjunct1, rule_format, OF ok]
    by blast
  have bad: "map_of (pendingStates st) ?s \<noteq> None \<and> \<not> writeFileOk failingDiskEnv"
    using p by (simp add: failingDiskEnv_def)
  have f: "statesFile (snd (handleAuthCallback failingDiskEnv st 1000 ''code-1'' ?s
                              exampleConfig)) = statesFile st"
    using t [THEN conjunct2, THEN conjunct2, THEN conjunct2, rule_format, OF bad] .
  show ?thesis using p c d f by (simp add: r)
qed

text \<open>
  C3. For a pending state created at time \<open>T\<close>, a callback fails with the expired-state
  error exactly when more than ten minutes have passed since \<open>T\<close>. So it does at \<open>T\<close>
  plus 10 min 1 s. At \<open>T\<close> plus 9 min 59 s it is neither rejected as expired nor as
  unknown: it goes on, and its outcome is that of resolving the metadata of the issuer,
  then the client, then exchanging the code for tokens.
\<close>

theorem handleAuthCallback_ttl:
  assumes "map_of (pendingStates st) s = Some oauthState"
    and "createdAt oauthState = T"
  shows "((fst (handleAuthCallback w st now code s config) = Inl StateExpired)
            = (now - T > 10 * 60 * 1000))
         \<and> fst (handleAuthCallback w st (T + 601 * 1000) code s config) = Inl StateExpired
         \<and> fst (handleAuthCallback w st (T + 599 * 1000) code s config) \<noteq> Inl StateExpired
         \<and> fst (handleAuthCallback w st (T + 599 * 1000) code s config)
             \<noteq> Inl InvalidOrExpiredState
         \<and> fst (handleAuthCallback w st (T + 599 * 1000) code s config)
             = (case discoverAuthServerMetadata w
                       (saveStatesToFile w
                          (st\<lparr>pendingStates := AList.delete s (pendingStates st)\<rparr>))
                       (T + 599 * 1000) (OAuthState.issuer oauthState) of
                  (Inl e, st1) \<Rightarrow> Inl e
                | (Inr authServer, st1) \<Rightarrow>
                    (case getOrRegisterClient w st1 (T + 599 * 1000) authServer
                            (OAuthState.resourceUri oauthState) config of
                       (Inl e, st2) \<Rightarrow> Inl e
                     | (Inr (cid, secret), st2) \<Rightarrow>
                         exchangeCodeForTokens w (T + 599 * 1000) authServer code
                           (OAuthState.redirectUri oauthState) (codeVerifier oauthState) cid
                           secret (Some (OAuthState.resourceUri oauthState))))"
proof -
  have iff: "(fst (handleAuthCallback w st t code s config) = Inl StateExpired)
               = (t - T > 10 * 60 * 1000)" for t
    using handleAuthCallback_expired_iff [OF assms(1)] assms(2) by (simp add: STATE_TTL_MS_def)
  have fresh: "\<not> (T + 599 * 1000) - createdAt oauthState > STATE_TTL_MS"
    using assms(2) by (simp add: STATE_TTL_MS_def)
  show ?thesis
  proof (intro conjI)
    show "(fst (handleAuthCallback w st now code s config) = Inl StateExpired)
            = (now - T > 10 * 60 * 1000)"
      by (rule iff)
    show "fst (handleAuthCallback w st (T + 601 * 1000) code s config) = Inl StateExpired"
      using iff [of "T + 601 * 1000"] by simp
    show "fst (handleAuthCallback w st (T + 599 * 1000) code s config) \<noteq> Inl StateExpired"
      using iff [of "T + 599 * 1000"] by simp
    show "fst (handleAuthCallback w st (T + 599 * 1000) code s config)
            \<noteq> Inl InvalidOrExpiredState"
      by (rule handleAuthCallback_known_state [OF assms(1)])
  qed (rule handleAuthCallback_proceeds [OF assms(1) fresh])
qed

theorem handleAuthCallback_ttl_witness:
  "fst (handleAuthCallback issuingEnv pendingModules (1000000 + 601 * 1000) ''code-1'' ''5f2a''
          exampleConfig) = Inl StateExpired
   \<and> fst (handleAuthCallback issuingEnv pendingModules (1000000 + 599 * 1000) ''code-1'' ''5f2a''
          exampleConfig)
       = Inr \<lparr> accessToken = ''access-2'', refreshToken = None, tokenType = ''Bearer'',
               expiresAt = 1000000 + 599 * 1000 + 3600 * 1000, scope = None \<rparr>"
proof -
  let ?st0 = "saveStatesToFile issuingEnv
                (pendingModules\<lparr>pendingStates := AList.delete ''5f2a'' (pendingStates pendingModules)\<rparr>)"
  have h1: "map_of (pendingStates pendingModules) ''5f2a'' = Some examplePending"
    by (simp add: pendingModules_def emptyModules_def)
  have h2: "createdAt examplePending = 1000000"
    by (simp add: examplePending_def)
  have d: "discoverAuthServerMetadata issuingEnv ?st0 (1000000 + 599 * 1000)
             (OAuthState.issuer examplePending) = (Inr exampleAuthServer, ?st0)"
    by (simp add: discoverAuthServerMetadata_def saveStatesToFile_def pendingModules_def
          emptyModules_def examplePending_def issuingEnv_def offlineEnv_def)
  have g: "getOrRegisterClient issuingEnv ?st0 (1000000 + 599 * 1000) exampleAuthServer
             (OAuthState.resourceUri examplePending) exampleConfig
             = (Inr (''client-1'', None), ?st0)"
    by (rule example_client)
  have x: "exchangeCodeForTokens issuingEnv (1000000 + 599 * 1000) exampleAuthServer ''code-1''
             (OAuthState.redirectUri examplePending) (codeVerifier examplePending) ''client-1''
             None (Some (OAuthState.resourceUri examplePending))
           = Inr \<lparr> accessToken = ''access-2'', refreshToken = None, tokenType = ''Bearer'',
                   expiresAt = 1000000 + 599 * 1000 + 3600 * 1000, scope = None \<rparr>"
    by (simp add: exchangeCodeForTokens_def issuingEnv_def offlineEnv_def issuedTokens_def
          truthy_def truthyNum_def ok_def validTimeValue_def Let_def)
  show ?thesis
    using handleAuthCallback_ttl [OF h1 h2, where w = issuingEnv and code = "''code-1''"
            and config = exampleConfig] d g x
    by simp
qed


lemma buildAuthorizationUrl_scope:
  assumes "buildAuthorizationUrl w authServer cid redir s challenge method uri scs = Inr u"
    and "parseURL w (authorization_endpoint authServer) = Some endpoint"
  shows "searchParams_get ''scope'' (searchParams u) =
           (if scs \<noteq> None \<and> the scs \<noteq> [] then Some (js_join '' '' (the scs))
            else if AuthServerMetadata.scopes_supported authServer \<noteq> None
                    \<and> the (AuthServerMetadata.scopes_supported authServer) \<noteq> []
            then Some (js_join '' '' (the (AuthServerMetadata.scopes_supported authServer)))
            else searchParams_get ''scope'' (searchParams endpoint))"
  using assms
  by (auto simp: buildAuthorizationUrl_def Let_def searchParams_get_set_same
        searchParams_get_set_other)

text \<open>
  C1, as the claim states it, fails: with the scope \<^verbatim>\<open>read\<close> configured and the scope
  \<^verbatim>\<open>write\<close> in the challenge, the authorization URL asks for \<^verbatim>\<open>write\<close>.
\<close>

theorem initiateAuthFlow_challenge_overrides_config:
  "OAuthConfig.scopes exampleConfig = Some [''read'']
   \<and> map_sum id (\<lambda>(u, s). searchParams_get ''scope'' (searchParams u))
        (fst (initiateAuthFlow unreachableEnv cachedModules 0 ''https://mcp.example.com/api''
                exampleConfig None (Some ''write'')))
       = Inr (Some ''write'')"
  by (simp add: initiateAuthFlow_def example_cleanup example_canonical example_metadata
        example_client generatePkcePair_def generateCodeVerifier_def Let_def
        buildAuthorizationUrl_def example_endpoint truthy_def example_config
        searchParams_get_def)

text \<open>
  C1, amended. The \<^verbatim>\<open>scope\<close> parameter of the authorization URL that \<open>initiateAuthFlow\<close>
  returns is, in this order: the challenge-derived scopes when \<^verbatim>\<open>challengedScopes\<close> is a
  non-empty string; else the configured \<^verbatim>\<open>config.scopes\<close> when that list is present and
  not empty; else, when no list is configured, the \<^verbatim>\<open>scopes_supported\<close> of the Protected
  Resource Metadata when present and not empty; else the \<^verbatim>\<open>scopes_supported\<close> of the
  authorization server when present and not empty; else the flow sets no \<^verbatim>\<open>scope\<close>
  parameter, and the URL has the one its authorization endpoint may carry.
\<close>

theorem initiateAuthFlow_scope_resolution:
  assumes "getMetadata w (cleanupExpiredStates w st now) now serverUrl rmu
             = (Inr (protectedResource, authServer), st1)"
    and "parseURL w (authorization_endpoint authServer) = Some endpoint"
    and "fst (initiateAuthFlow w st now serverUrl config rmu challengedScopes)
           = Inr (authorizationUrl, s)"
  shows "searchParams_get ''scope'' (searchParams authorizationUrl) =
           (let serverDefault =
                  (if AuthServerMetadata.scopes_supported authServer \<noteq> None
                      \<and> the (AuthServerMetadata.scopes_supported authServer) \<noteq> []
                   then Some (js_join '' '' (the (AuthServerMetadata.scopes_supported authServer)))
                   else searchParams_get ''scope'' (searchParams endpoint))
            in if truthy challengedScopes then challengedScopes
               else if OAuthConfig.scopes config \<noteq> None
               then (if the (OAuthConfig.scopes config) \<noteq> []
                     then Some (js_join '' '' (the (OAuthConfig.scopes config)))
                     else serverDefault)
               else if ProtectedResourceMetadata.scopes_supported protectedResource \<noteq> None
                       \<and> the (ProtectedResourceMetadata.scopes_supported protectedResource) \<noteq> []
               then Some (js_join '' ''
                            (the (ProtectedResourceMetadata.scopes_supported protectedResource)))
               else serverDefault)"
proof -
  let ?resolved =
    "if truthy challengedScopes then Some (js_split CHR '' '' (the challengedScopes))
     else if OAuthConfig.scopes config = None
             \<and> ProtectedResourceMetadata.scopes_supported protectedResource \<noteq> None
     then ProtectedResourceMetadata.scopes_supported protectedResource
     else OAuthConfig.scopes config"
  from assms(1,3) obtain cid redir challenge pkce uri where
    b: "buildAuthorizationUrl w authServer cid redir s challenge pkce uri ?resolved
          = Inr authorizationUrl"
    by (auto simp: initiateAuthFlow_def Let_def split: sum.splits prod.splits)
  have j: "js_join '' '' (js_split CHR '' '' c) = c" for c
    by (rule js_join_split)
  have t: "truthy challengedScopes \<Longrightarrow> Some (the challengedScopes) = challengedScopes"
    by (cases challengedScopes) (auto simp: truthy_def)
  show ?thesis
    unfolding buildAuthorizationUrl_scope [OF b assms(2)] Let_def
    using t by (auto simp: j js_split_nonempty)
qed

theorem initiateAuthFlow_scope_resolution_witness:
  "map_sum id (\<lambda>(u, s). searchParams_get ''scope'' (searchParams u))
     (fst (initiateAuthFlow unreachableEnv cachedModules 0 ''https://mcp.example.com/api''
             exampleConfig None None))
     = Inr (Some ''read'')"
proof -
  obtain u st where r: "initiateAuthFlow unreachableEnv cachedModules 0
                          ''https://mcp.example.com/api'' exampleConfig None None
                        = (Inr (u, generateState unreachableEnv 32), st)"
    using example_flow by blast
  have m: "getMetadata unreachableEnv (cleanupExpiredStates unreachableEnv cachedModules 0) 0
             ''https://mcp.example.com/api'' None
             = (Inr (exampleProtectedResource, exampleAuthServer), cachedModules)"
    by (simp add: example_cleanup example_metadata)
  have f: "fst (initiateAuthFlow unreachableEnv cachedModules 0 ''https://mcp.example.com/api''
                  exampleConfig None None) = Inr (u, generateState unreachableEnv 32)"
    by (simp add: r)
  have "searchParams_get ''scope'' (searchParams u) = Some ''read''"
    using initiateAuthFlow_scope_resolution [OF m example_endpoint f]
    by (simp add: truthy_def example_config)
  then show ?thesis by (simp add: r)
qed

end
